theory Spec2Isabelle
  imports Complex_Main "HOL-Library.AList"
begin

section \<open>Numbers\<close>

text \<open>
  The TypeScript sources compute with \<^verbatim>\<open>number\<close>. Amounts of SOL are modelled as
  exact rationals: the rounding of IEEE doubles in \<^verbatim>\<open>*\<close>, \<^verbatim>\<open>+\<close> and \<^verbatim>\<open>/\<close>
  is not part of the model. The places where a double is not a rational (division by zero
  yielding an infinity or NaN) are written out where the code can reach them.

  \<^verbatim>\<open>Number(x.toFixed(f))\<close>: for \<open>\<bar>x\<bar> < 10^21\<close> the method picks the integer \<open>n\<close> with
  \<open>n / 10^f\<close> closest to \<open>\<bar>x\<bar>\<close>, the larger one on a tie, and keeps the sign; from
  \<open>10^21\<close> on it prints the number itself.
\<close>

definition toFixed :: "nat \<Rightarrow> rat \<Rightarrow> rat" where
  "toFixed f x =
     (if 10 ^ 21 \<le> \<bar>x\<bar> then x
      else (if x < 0 then - 1 else 1) * (of_int \<lfloor>\<bar>x\<bar> * 10 ^ f + 1 / 2\<rfloor> / 10 ^ f))"

section \<open>fundManager.ts\<close>

record FundSplit =
  userTradingAmount :: rat
  revenueAmount :: rat
  totalAmount :: rat
  revenueWallet :: string
  timestamp :: nat

datatype purpose = REVENUE_COLLECTION | TRADING_FUNDING | REFUND

record FundTransfer =
  fromWallet :: string
  toWallet :: string
  amount :: rat
  signature :: string
  transferTimestamp :: nat
  transferPurpose :: purpose

definition REVENUE_WALLET :: string where
  "REVENUE_WALLET = ''8oj8bJ43BPE7818Pj3CAUnAe5gqGHHMKTCiMF4aCEtW6''"

definition REVENUE_PERCENTAGE :: rat where
  "REVENUE_PERCENTAGE = 0.25"

definition TRADING_PERCENTAGE :: rat where
  "TRADING_PERCENTAGE = 0.75"

definition MINIMUM_DEPOSIT_SOL :: rat where
  "MINIMUM_DEPOSIT_SOL = 0.1"

definition PRIVILEGED_WALLETS :: "string list" where
  "PRIVILEGED_WALLETS =
     [''2EJEuS1UaXaratBSiJJxd2p93XdvTL6uSHGXj2ZCx6Qt'',
      ''DAt9mmiYvh1uS5EtFMtb5uuPVWL1sPNfZtLULcthDVkC'',
      ''9hWRQJaTDeQKPu4kqDcBFFtBv4uTH75G29iTeGuo4zwi'']"

definition LAMPORTS_PER_SOL :: rat where
  "LAMPORTS_PER_SOL = 1000000000"

text \<open>
  The key of \<^verbatim>\<open>fundSplits\<close> is the template string
  \<^verbatim>\<open>`${sessionId}_${totalAmount}_${Date.now()}`\<close>. Both numbers print without an
  underscore, so the string determines its three parts read from the right; the key is
  kept as the triple.
\<close>

type_synonym splitKey = "string \<times> rat \<times> nat"

record FundManager =
  processedTransactions :: "string set"
  fundSplits :: "(splitKey \<times> FundSplit) list"
  revenueTransfers :: "FundTransfer list"

definition newFundManager :: FundManager where
  "newFundManager = \<lparr>processedTransactions = {}, fundSplits = [], revenueTransfers = []\<rparr>"

record DepositValidation =
  isValid :: bool
  message :: string
  minimumRequired :: rat

definition isPrivilegedWallet :: "string \<Rightarrow> bool" where
  "isPrivilegedWallet walletAddress = (walletAddress \<in> set PRIVILEGED_WALLETS)"

definition validateMinimumDeposit :: "string \<Rightarrow> rat \<Rightarrow> DepositValidation" where
  "validateMinimumDeposit userWalletAddress amt =
     (let isPrivileged = userWalletAddress \<in> set PRIVILEGED_WALLETS in
      if isPrivileged then
        \<lparr>isValid = True, message = ''Deposit meets minimum requirement'',
         minimumRequired = MINIMUM_DEPOSIT_SOL\<rparr>
      else if amt < MINIMUM_DEPOSIT_SOL then
        \<lparr>isValid = False,
         message = ''Minimum deposit is 0.1 SOL. Please deposit at least 0.1 SOL to use the volume bot.'',
         minimumRequired = MINIMUM_DEPOSIT_SOL\<rparr>
      else
        \<lparr>isValid = True, message = ''Deposit meets minimum requirement'',
         minimumRequired = MINIMUM_DEPOSIT_SOL\<rparr>)"

datatype error =
    MINIMUM_DEPOSIT_NOT_MET string
  | DUPLICATE_FUND_SPLIT
  | TRANSACTION_ALREADY_PROCESSED
  | INVALID_REVENUE_AMOUNT
  | REVENUE_TRANSFER_FAILED

text \<open>
  What a call of \<^verbatim>\<open>processFundSplit\<close> reads from outside the manager: the clock at its
  three \<^verbatim>\<open>Date.now()\<close> calls, and what the ledger answers to the fee transfer (the
  signature of the confirmed transaction, or \<open>None\<close> when sending or confirming throws).
\<close>

record SplitEnv =
  nowKey :: nat
  nowTransfer :: nat
  nowSplit :: nat
  sendResult :: "string option"

text \<open>A key pair is read only through its public key, in base 58.\<close>

type_synonym Keypair = string

definition executeRevenueTransfer ::
  "SplitEnv \<Rightarrow> FundManager \<Rightarrow> Keypair \<Rightarrow> rat \<Rightarrow> string \<Rightarrow> (error + string) \<times> FundManager" where
  "executeRevenueTransfer env fm userKeypair revenueAmt sessionId =
     (if revenueAmt \<le> 0 then (Inl INVALID_REVENUE_AMOUNT, fm)
      else case sendResult env of
        None \<Rightarrow> (Inl REVENUE_TRANSFER_FAILED, fm)
      | Some sig \<Rightarrow>
          (Inr sig,
           fm\<lparr>revenueTransfers := revenueTransfers fm @
                [\<lparr>fromWallet = userKeypair, toWallet = REVENUE_WALLET, amount = revenueAmt,
                  signature = sig, transferTimestamp = nowTransfer env,
                  transferPurpose = REVENUE_COLLECTION\<rparr>]\<rparr>))"

text \<open>
  An optional string argument is tested by truthiness: \<^verbatim>\<open>undefined\<close> and the empty
  string are both false.
\<close>

definition truthy :: "string option \<Rightarrow> bool" where
  "truthy s = (case s of None \<Rightarrow> False | Some t \<Rightarrow> t \<noteq> [])"

definition processFundSplit ::
  "SplitEnv \<Rightarrow> FundManager \<Rightarrow> string \<Rightarrow> Keypair \<Rightarrow> rat \<Rightarrow> string option \<Rightarrow> string option
     \<Rightarrow> (error + FundSplit) \<times> FundManager" where
  "processFundSplit env fm sessionId userKeypair totalAmt transactionId fundingSource =
     (let privilegedWallet = ''2EJEuS1UaXaratBSiJJxd2p93XdvTL6uSHGXj2ZCx6Qt'';
          isPrivilegedDeposit = (fundingSource = Some privilegedWallet);
          minimumCheck =
            (if isPrivilegedDeposit then None
             else let depositValidation = validateMinimumDeposit userKeypair totalAmt in
                  if \<not> isValid depositValidation
                  then Some (MINIMUM_DEPOSIT_NOT_MET (message depositValidation))
                  else None)
      in
      case minimumCheck of
        Some e \<Rightarrow> (Inl e, fm)
      | None \<Rightarrow>
        let splitKey = (sessionId, totalAmt, nowKey env) in
        if map_of (fundSplits fm) splitKey \<noteq> None then (Inl DUPLICATE_FUND_SPLIT, fm)
        else if truthy transactionId \<and> the transactionId \<in> processedTransactions fm then
          (Inl TRANSACTION_ALREADY_PROCESSED, fm)
        else
          let revenueAmt = toFixed 8 (totalAmt * REVENUE_PERCENTAGE);
              userTradingAmt = toFixed 8 (totalAmt * TRADING_PERCENTAGE)
          in
          case executeRevenueTransfer env fm userKeypair revenueAmt sessionId of
            (Inl e, fm1) \<Rightarrow> (Inl e, fm1)
          | (Inr revenueSignature, fm1) \<Rightarrow>
              let fundSplit =
                    \<lparr>userTradingAmount = userTradingAmt, revenueAmount = revenueAmt,
                     totalAmount = totalAmt, revenueWallet = REVENUE_WALLET,
                     timestamp = nowSplit env\<rparr>;
                  fm2 = fm1\<lparr>fundSplits := AList.update splitKey fundSplit (fundSplits fm1)\<rparr>;
                  fm3 = (if truthy transactionId
                         then fm2\<lparr>processedTransactions :=
                                    insert (the transactionId) (processedTransactions fm2)\<rparr>
                         else fm2)
              in (Inr fundSplit, fm3))"

section \<open>sessionPersistence.ts\<close>

text \<open>
  The sessions file is modelled as the list it holds; reading and writing it do not fail.
  A call reads the clock once. The fields \<^verbatim>\<open>forceActive\<close> to \<^verbatim>\<open>overrideBalance\<close> are not part
  of the declared interface; \<^verbatim>\<open>resumeTrading\<close> reads them from the stored JSON, the flags
  by truthiness.
\<close>

text \<open>
  The declared statuses are the first four; the service also writes \<^verbatim>\<open>'stopped'\<close> and
  tests for \<^verbatim>\<open>'active'\<close>.
\<close>

datatype status = monitoring | trading | completed | paused | stopped | active

record PersistentSession =
  p_sessionId :: string
  p_tokenAddress :: string
  p_userWallet :: string
  p_tradingBalance :: rat
  initialDeposit :: rat
  p_primaryDex :: string
  p_isActive :: bool
  p_startTime :: nat
  p_totalTrades :: nat
  p_totalVolume :: rat
  p_lastTradeTime :: "nat option"
  targetDepletion :: rat
  status :: status
  createdAt :: nat
  completedAt :: "nat option"
  forceActive :: bool
  useStoredBalance :: bool
  ignoreOnChainBalance :: bool
  bypassBalanceCheck :: bool
  revenueGuarantee :: bool
  overrideBalance :: "rat option"

fun findIndex :: "('a \<Rightarrow> bool) \<Rightarrow> 'a list \<Rightarrow> nat option" where
  "findIndex P [] = None"
| "findIndex P (x # xs) = (if P x then Some 0 else map_option Suc (findIndex P xs))"

definition getActiveSessions :: "PersistentSession list \<Rightarrow> PersistentSession list" where
  "getActiveSessions allSessions =
     filter (\<lambda>session. status session = trading
                \<or> (status session = monitoring \<and> p_tradingBalance session > 0)) allSessions"

text \<open>
  \<^verbatim>\<open>updateSessionStatus\<close>: the stored record, then the new status, then the additional
  data (a record update), then the completion time when the status is \<^verbatim>\<open>'completed'\<close>.
\<close>

definition updateSessionStatus ::
  "nat \<Rightarrow> PersistentSession list \<Rightarrow> string \<Rightarrow> status
     \<Rightarrow> (PersistentSession \<Rightarrow> PersistentSession) \<Rightarrow> PersistentSession list" where
  "updateSessionStatus now sessions sid st additionalData =
     (case findIndex (\<lambda>s. p_sessionId s = sid) sessions of
        None \<Rightarrow> sessions
      | Some sessionIndex \<Rightarrow>
          let s1 = additionalData ((sessions ! sessionIndex)\<lparr>status := st\<rparr>);
              s2 = (if st = completed then s1\<lparr>completedAt := Some now\<rparr> else s1)
          in sessions[sessionIndex := s2])"

text \<open>
  The quotient in \<^verbatim>\<open>updateTradingStats\<close> divides by the stored deposit, which may be
  zero: a double then is an infinity or NaN, and \<^verbatim>\<open>NaN <= 5\<close> is false.
\<close>

datatype jsnum = Num rat | PosInfinity | NegInfinity | NaN

definition js_divide :: "rat \<Rightarrow> rat \<Rightarrow> jsnum" where
  "js_divide a b =
     (if b = 0 then (if 0 < a then PosInfinity else if a < 0 then NegInfinity else NaN)
      else Num (a / b))"

fun js_times :: "jsnum \<Rightarrow> rat \<Rightarrow> jsnum" where
  "js_times (Num a) c = Num (a * c)"
| "js_times PosInfinity c = (if 0 < c then PosInfinity else if c < 0 then NegInfinity else NaN)"
| "js_times NegInfinity c = (if 0 < c then NegInfinity else if c < 0 then PosInfinity else NaN)"
| "js_times NaN c = NaN"

fun js_le :: "jsnum \<Rightarrow> rat \<Rightarrow> bool" where
  "js_le (Num a) c = (a \<le> c)"
| "js_le PosInfinity c = False"
| "js_le NegInfinity c = True"
| "js_le NaN c = False"

definition updateTradingStats ::
  "nat \<Rightarrow> PersistentSession list \<Rightarrow> string \<Rightarrow> nat \<Rightarrow> rat \<Rightarrow> rat \<Rightarrow> PersistentSession list" where
  "updateTradingStats now sessions sid totalTrades' totalVolume' tradingBalance' =
     (case findIndex (\<lambda>s. p_sessionId s = sid) sessions of
        None \<Rightarrow> sessions
      | Some sessionIndex \<Rightarrow>
          let s1 = (sessions ! sessionIndex)
                     \<lparr>p_totalTrades := totalTrades', p_totalVolume := totalVolume',
                      p_tradingBalance := tradingBalance', p_lastTradeTime := Some now\<rparr>;
              originalDeposit = initialDeposit s1;
              remainingPercentage =
                js_times (js_divide tradingBalance' (originalDeposit * 0.75)) 100;
              s2 = (if js_le remainingPercentage 5
                    then s1\<lparr>status := completed, completedAt := Some now\<rparr>
                    else s1)
          in sessions[sessionIndex := s2])"

definition updateSessionTrades ::
  "nat \<Rightarrow> PersistentSession list \<Rightarrow> string \<Rightarrow> nat \<Rightarrow> rat \<Rightarrow> PersistentSession list" where
  "updateSessionTrades now sessions sid totalTrades' totalVolume' =
     (case findIndex (\<lambda>s. p_sessionId s = sid) sessions of
        None \<Rightarrow> sessions
      | Some sessionIndex \<Rightarrow>
          sessions[sessionIndex := (sessions ! sessionIndex)
                     \<lparr>p_totalTrades := totalTrades', p_totalVolume := totalVolume',
                      p_lastTradeTime := Some now\<rparr>])"

section \<open>autoTradingService.ts\<close>

datatype tradeType = BUY | SELL

definition tradeVariations :: "rat list" where
  "tradeVariations = [0.0008, 0.0012, 0.0018, 0.0025, 0.0035, 0.0015, 0.0010]"

text \<open>
  \<^verbatim>\<open>calculateTradeAmount\<close>; the first argument is the value of \<^verbatim>\<open>Math.random()\<close>, a number
  from 0 up to but not including 1.
\<close>

definition calculateTradeAmount :: "rat \<Rightarrow> rat \<Rightarrow> rat" where
  "calculateTradeAmount rnd balance =
     (let randomAmount = tradeVariations ! nat \<lfloor>rnd * of_nat (length tradeVariations)\<rfloor>;
          maxSafeAmount = min randomAmount (balance * 0.05);
          finalAmount = max 0.0008 maxSafeAmount
      in finalAmount)"

record TradingSession =
  sessionId :: string
  tokenAddress :: string
  userWallet :: string
  tradingBalance :: rat
  primaryDex :: string
  isActive :: bool
  startTime :: nat
  totalTrades :: nat
  totalVolume :: rat
  lastTradeTime :: "nat option"
  intervalId :: "nat option"
  forceWalletAddress :: "string option"

text \<open>
  Session objects are shared: the trading loop holds the object it was started with, and
  \<^verbatim>\<open>activeSessions\<close> maps a session id to an object. The service state keeps the objects
  in a store and the map holds references. Timer handles are numbers, handed out in order.
\<close>

record AutoTradingService =
  sessionObjects :: "nat \<Rightarrow> TradingSession"
  activeSessions :: "string \<rightharpoonup> nat"
  balanceCheckers :: "string \<rightharpoonup> nat"
  persistedSessions :: "PersistentSession list"
  nextHandle :: nat
  nextObject :: nat

text \<open>
  What a callback does to the outside: a trade handed to \<^verbatim>\<open>dexTrader.executeTrade\<close>, and
  timers set (handle, delay in milliseconds, callback) and cleared.
\<close>

datatype callback = ExecuteNextTrade | TradingLoop | RetryWalletMonitoring | CheckForFunding

datatype effect =
    TradeAttempt tradeType rat
  | SetTimeout nat nat callback
  | SetInterval nat nat callback
  | ClearTimeout nat
  | ClearInterval nat

text \<open>
  What one run of a timer callback reads from outside the service: the random number, the
  balance the ledger reports (\<open>None\<close>: the query throws), the key pair the wallet manager
  returns for the session (\<open>None\<close>: \<^verbatim>\<open>null\<close>), the key pair of the fresh transaction wallet
  (\<open>None\<close>: creating it throws), the result of \<^verbatim>\<open>dexTrader.executeTrade\<close>, whether the
  wallet manager knows a wallet for the session, and the clock. A callback runs to its
  end before another one starts: what other callbacks do while it awaits is not modelled.
\<close>

datatype tradeResult = Success string | Failure "string option" | Throws

record Env =
  random :: rat
  chainBalance :: "rat option"
  walletKeypair :: "Keypair option"
  transactionKeypair :: "Keypair option"
  tradeOutcome :: tradeResult
  walletKnown :: bool
  clock :: nat

definition updateSession ::
  "AutoTradingService \<Rightarrow> nat \<Rightarrow> (TradingSession \<Rightarrow> TradingSession) \<Rightarrow> AutoTradingService" where
  "updateSession svc r f = svc\<lparr>sessionObjects := (sessionObjects svc)(r := f (sessionObjects svc r))\<rparr>"

text \<open>\<^verbatim>\<open>setTimeout(callback, delay)\<close> returns a fresh handle.\<close>

definition setTimeout ::
  "AutoTradingService \<Rightarrow> callback \<Rightarrow> nat \<Rightarrow> nat \<times> AutoTradingService \<times> effect list" where
  "setTimeout svc cb delay =
     (nextHandle svc, svc\<lparr>nextHandle := Suc (nextHandle svc)\<rparr>,
      [SetTimeout (nextHandle svc) delay cb])"

text \<open>\<^verbatim>\<open>session.intervalId = setTimeout(executeNextTrade, delay)\<close>\<close>

definition scheduleTrade :: "AutoTradingService \<Rightarrow> nat \<Rightarrow> nat \<Rightarrow> AutoTradingService \<times> effect list" where
  "scheduleTrade svc r delay =
     (case setTimeout svc ExecuteNextTrade delay of
        (h, svc', es) \<Rightarrow> (updateSession svc' r (\<lambda>s. s\<lparr>intervalId := Some h\<rparr>), es))"

definition stopTradingSession ::
  "AutoTradingService \<Rightarrow> string \<Rightarrow> bool \<times> AutoTradingService \<times> effect list" where
  "stopTradingSession svc sid =
     (case activeSessions svc sid of
        None \<Rightarrow> (False, svc, [])
      | Some r \<Rightarrow>
          let session = sessionObjects svc r;
              svc1 = updateSession svc r (\<lambda>s. s\<lparr>isActive := False\<rparr>);
              e1 = (case intervalId session of None \<Rightarrow> [] | Some h \<Rightarrow> [ClearTimeout h])
          in case balanceCheckers svc1 sid of
               None \<Rightarrow> (True, svc1, e1)
             | Some balanceChecker \<Rightarrow>
                 (True, svc1\<lparr>balanceCheckers := (balanceCheckers svc1)(sid := None)\<rparr>,
                  e1 @ [ClearInterval balanceChecker]))"

definition minimumBalanceForTrade :: rat where
  "minimumBalanceForTrade = 0.001"

text \<open>The end of the \<^verbatim>\<open>try\<close> block of \<^verbatim>\<open>executeNextTrade\<close>: schedule the next trade or stop.\<close>

definition scheduleNextTrade :: "AutoTradingService \<Rightarrow> nat \<Rightarrow> AutoTradingService \<times> effect list" where
  "scheduleNextTrade svc r =
     (let session = sessionObjects svc r in
      if isActive session \<and> tradingBalance session \<ge> minimumBalanceForTrade
      then scheduleTrade svc r 7000
      else snd (stopTradingSession svc (sessionId session)))"

text \<open>The \<^verbatim>\<open>catch\<close> block of \<^verbatim>\<open>executeNextTrade\<close>.\<close>

definition retryAfterError :: "AutoTradingService \<Rightarrow> nat \<Rightarrow> AutoTradingService \<times> effect list" where
  "retryAfterError svc r =
     (if isActive (sessionObjects svc r) then scheduleTrade svc r 10000 else (svc, []))"

definition executeNextTrade :: "Env \<Rightarrow> AutoTradingService \<Rightarrow> nat \<Rightarrow> AutoTradingService \<times> effect list" where
  "executeNextTrade env svc r =
     (let session = sessionObjects svc r in
      if \<not> isActive session then snd (stopTradingSession svc (sessionId session))
      else if tradingBalance session < minimumBalanceForTrade
      then snd (stopTradingSession svc (sessionId session))
      else
        let tradeType = (if totalTrades session mod 2 = 0 then BUY else SELL);
            tradeAmount = calculateTradeAmount (random env) (tradingBalance session)
        in case walletKeypair env of
             None \<Rightarrow> (svc, [])
           | Some kp \<Rightarrow>
               (case transactionKeypair env of
                  None \<Rightarrow> retryAfterError svc r
                | Some tk \<Rightarrow>
                    (case tradeOutcome env of
                       Throws \<Rightarrow>
                         (case retryAfterError svc r of
                            (svc', es) \<Rightarrow> (svc', TradeAttempt tradeType tradeAmount # es))
                     | Failure err \<Rightarrow>
                         (case scheduleNextTrade svc r of
                            (svc', es) \<Rightarrow> (svc', TradeAttempt tradeType tradeAmount # es))
                     | Success sig \<Rightarrow>
                         let session' = session
                               \<lparr>totalTrades := totalTrades session + 1,
                                totalVolume := totalVolume session + tradeAmount,
                                lastTradeTime := Some (clock env),
                                tradingBalance := tradingBalance session - tradeAmount\<rparr>;
                             svc1 = (updateSession svc r (\<lambda>_. session'))
                               \<lparr>persistedSessions :=
                                  updateTradingStats (clock env) (persistedSessions svc)
                                    (sessionId session') (totalTrades session')
                                    (totalVolume session') (tradingBalance session')\<rparr>
                         in case scheduleNextTrade svc1 r of
                              (svc', es) \<Rightarrow> (svc', TradeAttempt tradeType tradeAmount # es))))"

text \<open>\<^verbatim>\<open>startTradingLoop\<close> schedules the first run of \<^verbatim>\<open>executeNextTrade\<close> after 2 seconds.\<close>

definition startTradingLoop :: "AutoTradingService \<Rightarrow> nat \<Rightarrow> AutoTradingService \<times> effect list" where
  "startTradingLoop svc r = scheduleTrade svc r 2000"

section \<open>The loop of executeNeverStopTradingLoop\<close>

fun startsWith :: "string \<Rightarrow> string \<Rightarrow> bool" where
  "startsWith s [] = True"
| "startsWith [] (c # cs) = False"
| "startsWith (d # ds) (c # cs) = (d = c \<and> startsWith ds cs)"

fun includesStr :: "string \<Rightarrow> string \<Rightarrow> bool" where
  "includesStr [] sub = (sub = [])"
| "includesStr (d # ds) sub = (startsWith (d # ds) sub \<or> includesStr ds sub)"

text \<open>The variables the closure \<^verbatim>\<open>tradingLoop\<close> keeps between its runs.\<close>

record NeverStopLoop =
  loopSession :: nat
  isNextTradeBuy :: bool

definition executeNeverStopTradingLoop ::
  "AutoTradingService \<Rightarrow> nat \<Rightarrow> AutoTradingService \<times> NeverStopLoop" where
  "executeNeverStopTradingLoop svc r =
     (updateSession svc r (\<lambda>s. s\<lparr>totalTrades := 0\<rparr>), \<lparr>loopSession = r, isNextTradeBuy = True\<rparr>)"

definition depletionThreshold :: rat where
  "depletionThreshold = 0.001"

text \<open>\<^verbatim>\<open>setTimeout(tradingLoop, 7000)\<close>, after the effects of the run so far.\<close>

definition scheduleLoop ::
  "AutoTradingService \<times> NeverStopLoop \<Rightarrow> effect list
     \<Rightarrow> (AutoTradingService \<times> NeverStopLoop) \<times> effect list" where
  "scheduleLoop st es =
     (case setTimeout (fst st) TradingLoop 7000 of (h, svc', es') \<Rightarrow> ((svc', snd st), es @ es'))"

definition sellAmountTooSmall :: "tradeType \<Rightarrow> string option \<Rightarrow> bool" where
  "sellAmountTooSmall tradeType err =
     (tradeType = SELL \<and> truthy err \<and> includesStr (the err) ''sell amount too small'')"

definition tradingLoop ::
  "Env \<Rightarrow> AutoTradingService \<times> NeverStopLoop
     \<Rightarrow> (AutoTradingService \<times> NeverStopLoop) \<times> effect list" where
  "tradingLoop env st =
     (let svc = fst st; loop = snd st; r = loopSession loop; session = sessionObjects svc r in
      case chainBalance env of
        None \<Rightarrow> scheduleLoop st []
      | Some currentBalanceSOL \<Rightarrow>
          if currentBalanceSOL \<le> depletionThreshold then
            let svc1 = updateSession svc r (\<lambda>s. s\<lparr>isActive := False\<rparr>);
                svc2 = svc1\<lparr>activeSessions := (activeSessions svc1)(sessionId session := None),
                           persistedSessions :=
                             updateSessionStatus (clock env) (persistedSessions svc1)
                               (sessionId session) completed
                               (\<lambda>p. p\<lparr>p_totalTrades := totalTrades session\<rparr>)\<rparr>
            in ((svc2, loop), [])
          else
            let tradeAmount = min (currentBalanceSOL * 0.5) 0.001 in
            if tradeAmount < 0.0002 then scheduleLoop st []
            else
              let tradeType = (if isNextTradeBuy loop then BUY else SELL) in
              case transactionKeypair env of
                None \<Rightarrow> scheduleLoop st []
              | Some tk \<Rightarrow>
                  (case tradeOutcome env of
                     Throws \<Rightarrow> scheduleLoop st [TradeAttempt tradeType tradeAmount]
                   | Success sig \<Rightarrow>
                       let session' = session
                             \<lparr>totalTrades := totalTrades session + 1,
                              totalVolume := totalVolume session + tradeAmount,
                              lastTradeTime := Some (clock env)\<rparr>;
                           loop' = loop\<lparr>isNextTradeBuy := \<not> isNextTradeBuy loop\<rparr>;
                           svc1 = (updateSession svc r (\<lambda>_. session'))
                             \<lparr>persistedSessions :=
                                updateSessionTrades (clock env) (persistedSessions svc)
                                  (sessionId session') (totalTrades session')
                                  (totalVolume session')\<rparr>
                       in scheduleLoop (svc1, loop') [TradeAttempt tradeType tradeAmount]
                   | Failure err \<Rightarrow>
                       if sellAmountTooSmall tradeType err then
                         let svc1 = updateSession svc r
                                      (\<lambda>s. s\<lparr>totalTrades := totalTrades s + 1\<rparr>);
                             loop' = loop\<lparr>isNextTradeBuy := \<not> isNextTradeBuy loop\<rparr>
                         in scheduleLoop (svc1, loop') [TradeAttempt tradeType tradeAmount]
                       else scheduleLoop st [TradeAttempt tradeType tradeAmount]))"

section \<open>Recovery\<close>

definition startWalletMonitoring ::
  "Env \<Rightarrow> AutoTradingService \<Rightarrow> string \<Rightarrow> AutoTradingService \<times> effect list" where
  "startWalletMonitoring env svc sid =
     (if \<not> walletKnown env then (case setTimeout svc RetryWalletMonitoring 2000 of (h, svc', es) \<Rightarrow> (svc', es))
      else (svc\<lparr>nextHandle := Suc (nextHandle svc),
                 balanceCheckers := (balanceCheckers svc)(sid \<mapsto> nextHandle svc)\<rparr>,
            [SetInterval (nextHandle svc) 3000 CheckForFunding]))"

definition shouldBypassCheck :: "PersistentSession option \<Rightarrow> bool" where
  "shouldBypassCheck sessionData =
     (case sessionData of
        None \<Rightarrow> False
      | Some d \<Rightarrow>
          forceActive d \<or> useStoredBalance d \<or> ignoreOnChainBalance d \<or> bypassBalanceCheck d
          \<or> revenueGuarantee d
          \<or> (case overrideBalance d of None \<Rightarrow> False | Some b \<Rightarrow> b \<noteq> 0))"

definition resumeTrading :: "Env \<Rightarrow> AutoTradingService \<Rightarrow> nat \<Rightarrow> AutoTradingService \<times> effect list" where
  "resumeTrading env svc r =
     (let session = sessionObjects svc r in
      case chainBalance env of
        None \<Rightarrow>
          startWalletMonitoring env
            (svc\<lparr>persistedSessions :=
                   updateSessionStatus (clock env) (persistedSessions svc) (sessionId session)
                     monitoring id\<rparr>)
            (sessionId session)
      | Some solBalance \<Rightarrow>
          let sessionData = find (\<lambda>s. p_sessionId s = sessionId session)
                              (getActiveSessions (persistedSessions svc));
              bypass = shouldBypassCheck sessionData
          in
          if solBalance < 0.001 \<and> \<not> bypass then
            (svc\<lparr>persistedSessions :=
                   updateSessionStatus (clock env) (persistedSessions svc) (sessionId session)
                     completed id\<rparr>, [])
          else
            let svc1 =
                  (case sessionData of
                     None \<Rightarrow> svc
                   | Some d \<Rightarrow>
                       if bypass \<and> (case overrideBalance d of None \<Rightarrow> False | Some b \<Rightarrow> b \<noteq> 0)
                       then updateSession svc r (\<lambda>s. s\<lparr>tradingBalance := the (overrideBalance d)\<rparr>)
                       else if bypass \<and> p_tradingBalance d \<noteq> 0
                       then updateSession svc r (\<lambda>s. s\<lparr>tradingBalance := p_tradingBalance d\<rparr>)
                       else svc);
                svc2 = (if \<not> bypass
                        then updateSession svc1 r (\<lambda>s. s\<lparr>tradingBalance := solBalance\<rparr>)
                        else svc1)
            in startTradingLoop svc2 r)"

definition recoverSingleSession ::
  "Env \<Rightarrow> AutoTradingService \<Rightarrow> PersistentSession \<Rightarrow> AutoTradingService \<times> effect list" where
  "recoverSingleSession env svc persistentSession =
     (let r = nextObject svc;
          session =
            \<lparr>sessionId = p_sessionId persistentSession,
             tokenAddress = p_tokenAddress persistentSession,
             userWallet = p_userWallet persistentSession,
             tradingBalance = p_tradingBalance persistentSession,
             primaryDex = p_primaryDex persistentSession,
             isActive = (status persistentSession = trading),
             startTime = p_startTime persistentSession,
             totalTrades = p_totalTrades persistentSession,
             totalVolume = p_totalVolume persistentSession,
             lastTradeTime = p_lastTradeTime persistentSession,
             intervalId = None,
             forceWalletAddress = None\<rparr>;
          svc1 = svc\<lparr>sessionObjects := (sessionObjects svc)(r := session),
                    nextObject := Suc r,
                    activeSessions := (activeSessions svc)(p_sessionId persistentSession \<mapsto> r)\<rparr>
      in
      if status persistentSession = trading \<and> p_tradingBalance persistentSession > 0.001
      then resumeTrading env svc1 r
      else if status persistentSession = monitoring
      then startWalletMonitoring env svc1 (p_sessionId persistentSession)
      else (svc1, []))"

text \<open>
  One round of the loop of \<^verbatim>\<open>bulletproofSessionRecovery\<close>, for one saved session. The
  method \<^verbatim>\<open>createTradingSession\<close> it calls to restart a session is not in the sources;
  the result records whether the round got that far.
\<close>

datatype sweep = Skipped | BalanceQueryThrows | Restart | WalletUnknown | MarkedCompleted

definition bulletproofSessionRecovery ::
  "Env \<Rightarrow> AutoTradingService \<Rightarrow> PersistentSession \<Rightarrow> sweep \<times> AutoTradingService" where
  "bulletproofSessionRecovery env svc saved =
     (if status saved = active \<and> activeSessions svc (p_sessionId saved) = None then
        case chainBalance env of
          None \<Rightarrow> (BalanceQueryThrows, svc)
        | Some currentBalanceSOL \<Rightarrow>
            if currentBalanceSOL > 0.002
            then (if walletKnown env then (Restart, svc) else (WalletUnknown, svc))
            else (MarkedCompleted,
                  svc\<lparr>persistedSessions :=
                        updateSessionStatus (clock env) (persistedSessions svc)
                          (p_sessionId saved) completed id\<rparr>)
      else (Skipped, svc))"

section \<open>The loop of UserVolumeBot.startContinuousTrading\<close>

record UserSession =
  fundingAmount :: rat
  availableBalance :: rat

datatype 'a call = Returns 'a | Thrown

text \<open>
  What one run of the interval callback reads: the session the storage returns
  (\<^verbatim>\<open>null\<close> or a session, or the query throws) and what \<^verbatim>\<open>executeRealTrade\<close> returns (a
  signature or \<^verbatim>\<open>null\<close>, or the call throws). The balances are the parsed strings of the
  stored session.
\<close>

record VolumeEnv =
  getUserSession :: "UserSession option call"
  executeRealTrade :: "string option call"

record ContinuousTrading =
  tradeCount :: nat
  currentTradeType :: tradeType
  consecutiveErrors :: nat
  tradingInterval :: bool

datatype volumeEffect = RealTrade tradeType | MarkCompleted | ReinitializeJupiter

definition maxConsecutiveErrors :: nat where
  "maxConsecutiveErrors = 5"

definition startContinuousTrading :: ContinuousTrading where
  "startContinuousTrading =
     \<lparr>tradeCount = 0, currentTradeType = BUY, consecutiveErrors = 0, tradingInterval = True\<rparr>"

text \<open>The \<^verbatim>\<open>catch\<close> block of the interval callback.\<close>

definition continuousTradingCatch ::
  "ContinuousTrading \<Rightarrow> volumeEffect list \<Rightarrow> ContinuousTrading \<times> volumeEffect list" where
  "continuousTradingCatch st es =
     (let st1 = st\<lparr>consecutiveErrors := consecutiveErrors st + 1\<rparr> in
      if consecutiveErrors st1 \<ge> maxConsecutiveErrors
      then (st1\<lparr>consecutiveErrors := 0\<rparr>, es @ [ReinitializeJupiter])
      else (st1, es))"

definition continuousTradingTick ::
  "VolumeEnv \<Rightarrow> ContinuousTrading \<Rightarrow> ContinuousTrading \<times> volumeEffect list" where
  "continuousTradingTick env st =
     (case getUserSession env of
        Thrown \<Rightarrow> continuousTradingCatch st []
      | Returns None \<Rightarrow> (st\<lparr>tradingInterval := False\<rparr>, [])
      | Returns (Some session) \<Rightarrow>
          if availableBalance session \<le> fundingAmount session * 0.25
          then (st\<lparr>tradingInterval := False\<rparr>, [MarkCompleted])
          else if availableBalance session < 0.001 then (st, [])
          else
            (case executeRealTrade env of
               Thrown \<Rightarrow> continuousTradingCatch st [RealTrade (currentTradeType st)]
             | Returns sg \<Rightarrow>
                 let st1 =
                       (if truthy sg
                        then st\<lparr>tradeCount := tradeCount st + 1, consecutiveErrors := 0,
                                currentTradeType :=
                                  (if currentTradeType st = BUY then SELL else BUY)\<rparr>
                        else st\<lparr>consecutiveErrors := consecutiveErrors st + 1\<rparr>);
                     st2 = (if consecutiveErrors st1 \<ge> maxConsecutiveErrors
                            then st1\<lparr>consecutiveErrors := 0\<rparr> else st1)
                 in (st2, [RealTrade (currentTradeType st)])))"

section \<open>Running a loop\<close>

text \<open>Consecutive runs of a callback, each with what it reads from outside.\<close>

fun runTicks :: "Env list \<Rightarrow> AutoTradingService \<Rightarrow> nat \<Rightarrow> AutoTradingService \<times> effect list" where
  "runTicks [] svc r = (svc, [])"
| "runTicks (env # envs) svc r =
     (case executeNextTrade env svc r of
        (svc1, es1) \<Rightarrow> (case runTicks envs svc1 r of (svc2, es2) \<Rightarrow> (svc2, es1 @ es2)))"

fun runVolumeTicks ::
  "VolumeEnv list \<Rightarrow> ContinuousTrading \<Rightarrow> ContinuousTrading \<times> volumeEffect list" where
  "runVolumeTicks [] st = (st, [])"
| "runVolumeTicks (env # envs) st =
     (case continuousTradingTick env st of
        (st1, es1) \<Rightarrow> (case runVolumeTicks envs st1 of (st2, es2) \<Rightarrow> (st2, es1 @ es2)))"

fun isTrade :: "effect \<Rightarrow> bool" where
  "isTrade (TradeAttempt t a) = True"
| "isTrade _ = False"

fun isSetTimeout :: "effect \<Rightarrow> bool" where
  "isSetTimeout (SetTimeout h d cb) = True"
| "isSetTimeout _ = False"

text \<open>The side of the trade a run attempted, if it attempted one.\<close>

fun attemptedSide :: "effect list \<Rightarrow> tradeType option" where
  "attemptedSide [] = None"
| "attemptedSide (TradeAttempt t a # es) = Some t"
| "attemptedSide (e # es) = attemptedSide es"

fun opposite :: "tradeType \<Rightarrow> tradeType" where
  "opposite BUY = SELL"
| "opposite SELL = BUY"

text \<open>
  A run of \<^verbatim>\<open>executeNextTrade\<close> meets an execution error when the session's key pair
  is there and then creating the transaction wallet throws, or the trade throws, or the
  trade comes back with \<^verbatim>\<open>success: false\<close>.
\<close>

definition executionError :: "Env \<Rightarrow> bool" where
  "executionError env =
     (walletKeypair env \<noteq> None
      \<and> (transactionKeypair env = None
           \<or> (case tradeOutcome env of Success sig \<Rightarrow> False | Failure err \<Rightarrow> True | Throws \<Rightarrow> True)))"

text \<open>
  A run of the callback of \<^verbatim>\<open>startContinuousTrading\<close> meets an error when the storage
  query throws, or the session has funds to trade and the trade returns no signature or
  the run throws.
\<close>

definition volumeError :: "VolumeEnv \<Rightarrow> bool" where
  "volumeError env =
     (case getUserSession env of
        Thrown \<Rightarrow> True
      | Returns None \<Rightarrow> False
      | Returns (Some session) \<Rightarrow>
          \<not> availableBalance session \<le> fundingAmount session * 0.25
          \<and> \<not> availableBalance session < 0.001
          \<and> (case executeRealTrade env of Thrown \<Rightarrow> True | Returns sg \<Rightarrow> \<not> truthy sg))"

section \<open>Example states\<close>

definition exampleSession :: TradingSession where
  "exampleSession =
     \<lparr>sessionId = ''session_1'', tokenAddress = ''TokenMint111'', userWallet = ''SessionWallet111'',
      tradingBalance = 0.075, primaryDex = ''Jupiter'', isActive = True, startTime = 1000,
      totalTrades = 0, totalVolume = 0, lastTradeTime = None, intervalId = None,
      forceWalletAddress = None\<rparr>"

definition examplePersistent :: PersistentSession where
  "examplePersistent =
     \<lparr>p_sessionId = ''session_1'', p_tokenAddress = ''TokenMint111'',
      p_userWallet = ''SessionWallet111'', p_tradingBalance = 0.75, initialDeposit = 1,
      p_primaryDex = ''Jupiter'', p_isActive = True, p_startTime = 1000, p_totalTrades = 0,
      p_totalVolume = 0, p_lastTradeTime = None, targetDepletion = 0.75, status = trading,
      createdAt = 1000, completedAt = None, forceActive = False, useStoredBalance = False,
      ignoreOnChainBalance = False, bypassBalanceCheck = False, revenueGuarantee = False,
      overrideBalance = None\<rparr>"

definition exampleService :: "TradingSession \<Rightarrow> PersistentSession list \<Rightarrow> AutoTradingService" where
  "exampleService session persisted =
     \<lparr>sessionObjects = (\<lambda>_. session), activeSessions = [sessionId session \<mapsto> 0],
      balanceCheckers = Map.empty, persistedSessions = persisted, nextHandle = 1,
      nextObject = 1\<rparr>"

definition exampleEnv :: "tradeResult \<Rightarrow> Env" where
  "exampleEnv outcome =
     \<lparr>random = 0.5, chainBalance = Some 0.075, walletKeypair = Some ''SessionWallet111'',
      transactionKeypair = Some ''TransactionWallet111'', tradeOutcome = outcome,
      walletKnown = True, clock = 2000\<rparr>"

section \<open>Rounding to a fixed number of decimals\<close>

lemma floor_numeral_divide:
  "\<lfloor>numeral a / numeral b :: rat\<rfloor> = numeral a div numeral b"
  using floor_divide_of_int_eq [of "numeral a" "numeral b", where ?'a = rat] by simp



lemmas fund_eval = floor_numeral_divide processFundSplit_def validateMinimumDeposit_def
  PRIVILEGED_WALLETS_def MINIMUM_DEPOSIT_SOL_def newFundManager_def toFixed_def
  REVENUE_PERCENTAGE_def TRADING_PERCENTAGE_def executeRevenueTransfer_def truthy_def
  REVENUE_WALLET_def isPrivilegedWallet_def Let_def

section \<open>Minimum deposit\<close>

lemma validateMinimumDeposit_privileged:
  "userWalletAddress \<in> set PRIVILEGED_WALLETS \<Longrightarrow>
     validateMinimumDeposit userWalletAddress amt =
       \<lparr>isValid = True, message = ''Deposit meets minimum requirement'',
        minimumRequired = MINIMUM_DEPOSIT_SOL\<rparr>"
  by (simp add: validateMinimumDeposit_def)

lemma validateMinimumDeposit_regular_ok:
  "userWalletAddress \<notin> set PRIVILEGED_WALLETS \<Longrightarrow> MINIMUM_DEPOSIT_SOL \<le> amt \<Longrightarrow>
     validateMinimumDeposit userWalletAddress amt =
       \<lparr>isValid = True, message = ''Deposit meets minimum requirement'',
        minimumRequired = MINIMUM_DEPOSIT_SOL\<rparr>"
  by (simp add: validateMinimumDeposit_def)

text \<open>
  C7. The answer of \<^verbatim>\<open>validateMinimumDeposit\<close> to a privileged address, whatever the
  amount, is the very record a regular address gets for a deposit that meets the standard
  minimum: valid, the generic message, and the standard minimum of 0.1 SOL as
  \<^verbatim>\<open>minimumRequired\<close>.
\<close>

theorem validateMinimumDeposit_privileged_indistinguishable:
  assumes "isPrivilegedWallet p" and "\<not> isPrivilegedWallet q" and "MINIMUM_DEPOSIT_SOL \<le> b"
  shows "validateMinimumDeposit p a = validateMinimumDeposit q b
       \<and> isValid (validateMinimumDeposit p a)
       \<and> message (validateMinimumDeposit p a) = ''Deposit meets minimum requirement''
       \<and> minimumRequired (validateMinimumDeposit p a) = 0.1"
  using assms
  by (simp add: isPrivilegedWallet_def validateMinimumDeposit_privileged
      validateMinimumDeposit_regular_ok MINIMUM_DEPOSIT_SOL_def)

theorem validateMinimumDeposit_privileged_indistinguishable_witness:
  "isPrivilegedWallet ''DAt9mmiYvh1uS5EtFMtb5uuPVWL1sPNfZtLULcthDVkC''
   \<and> \<not> isPrivilegedWallet ''someRegularWallet''
   \<and> MINIMUM_DEPOSIT_SOL \<le> 0.5
   \<and> validateMinimumDeposit ''DAt9mmiYvh1uS5EtFMtb5uuPVWL1sPNfZtLULcthDVkC'' 0.01
       = validateMinimumDeposit ''someRegularWallet'' 0.5"
proof -
  have p: "isPrivilegedWallet ''DAt9mmiYvh1uS5EtFMtb5uuPVWL1sPNfZtLULcthDVkC''"
    by (simp add: isPrivilegedWallet_def PRIVILEGED_WALLETS_def)
  have q: "\<not> isPrivilegedWallet ''someRegularWallet''"
    by (simp add: isPrivilegedWallet_def PRIVILEGED_WALLETS_def)
  have b: "MINIMUM_DEPOSIT_SOL \<le> 0.5"
    by (simp add: MINIMUM_DEPOSIT_SOL_def)
  show ?thesis
    using p q b validateMinimumDeposit_privileged_indistinguishable [OF p q b, where a = "0.01"]
    by simp
qed

text \<open>
  C6, as amended. A deposit below 0.1 SOL into a regular user wallet is refused with the
  minimum-deposit error and the manager is left as it was, provided the funding source is
  not the privileged funding wallet (for which \<^verbatim>\<open>processFundSplit\<close> skips the
  validation). A deposit of 0.1 SOL or more passes the validation, and the call never
  ends in the minimum-deposit error.
\<close>

theorem processFundSplit_minimum_deposit:
  "(\<not> isPrivilegedWallet userKeypair
      \<and> fundingSource \<noteq> Some ''2EJEuS1UaXaratBSiJJxd2p93XdvTL6uSHGXj2ZCx6Qt''
      \<and> totalAmt < MINIMUM_DEPOSIT_SOL \<longrightarrow>
      processFundSplit env fm sid userKeypair totalAmt transactionId fundingSource
        = (Inl (MINIMUM_DEPOSIT_NOT_MET
             ''Minimum deposit is 0.1 SOL. Please deposit at least 0.1 SOL to use the volume bot.''), fm))
   \<and> (MINIMUM_DEPOSIT_SOL \<le> totalAmt \<longrightarrow>
        isValid (validateMinimumDeposit userKeypair totalAmt)
        \<and> (\<forall>m. fst (processFundSplit env fm sid userKeypair totalAmt transactionId fundingSource)
               \<noteq> Inl (MINIMUM_DEPOSIT_NOT_MET m)))"
proof (intro conjI impI allI)
  assume "\<not> isPrivilegedWallet userKeypair
      \<and> fundingSource \<noteq> Some ''2EJEuS1UaXaratBSiJJxd2p93XdvTL6uSHGXj2ZCx6Qt''
      \<and> totalAmt < MINIMUM_DEPOSIT_SOL"
  then show "processFundSplit env fm sid userKeypair totalAmt transactionId fundingSource
        = (Inl (MINIMUM_DEPOSIT_NOT_MET
             ''Minimum deposit is 0.1 SOL. Please deposit at least 0.1 SOL to use the volume bot.''), fm)"
    by (simp add: processFundSplit_def validateMinimumDeposit_def isPrivilegedWallet_def)
next
  assume "MINIMUM_DEPOSIT_SOL \<le> totalAmt"
  then show v: "isValid (validateMinimumDeposit userKeypair totalAmt)"
    by (simp add: validateMinimumDeposit_def)
  fix m
  show "fst (processFundSplit env fm sid userKeypair totalAmt transactionId fundingSource)
               \<noteq> Inl (MINIMUM_DEPOSIT_NOT_MET m)"
    using v
    by (auto simp: processFundSplit_def Let_def executeRevenueTransfer_def
        split: option.splits if_splits sum.splits prod.splits)
qed

theorem processFundSplit_minimum_deposit_witness:
  "\<not> isPrivilegedWallet ''regularUserWallet''
   \<and> (0.05 :: rat) < MINIMUM_DEPOSIT_SOL
   \<and> processFundSplit
         \<lparr>nowKey = 1000, nowTransfer = 1001, nowSplit = 1002, sendResult = Some ''sig1''\<rparr>
         newFundManager ''s1'' ''regularUserWallet'' 0.05 None None
       = (Inl (MINIMUM_DEPOSIT_NOT_MET
            ''Minimum deposit is 0.1 SOL. Please deposit at least 0.1 SOL to use the volume bot.''),
          newFundManager)
   \<and> MINIMUM_DEPOSIT_SOL \<le> 0.1
   \<and> isValid (validateMinimumDeposit ''regularUserWallet'' 0.1)
   \<and> (\<forall>m. fst (processFundSplit
         \<lparr>nowKey = 1000, nowTransfer = 1001, nowSplit = 1002, sendResult = Some ''sig1''\<rparr>
         newFundManager ''s1'' ''regularUserWallet'' 0.1 None None) \<noteq> Inl (MINIMUM_DEPOSIT_NOT_MET m))"
proof -
  have a: "\<not> isPrivilegedWallet ''regularUserWallet''"
    by (simp add: isPrivilegedWallet_def PRIVILEGED_WALLETS_def)
  have b: "(0.05 :: rat) < MINIMUM_DEPOSIT_SOL" by (simp add: MINIMUM_DEPOSIT_SOL_def)
  have c: "MINIMUM_DEPOSIT_SOL \<le> 0.1" by (simp add: MINIMUM_DEPOSIT_SOL_def)
  have d: "(None :: string option) \<noteq> Some ''2EJEuS1UaXaratBSiJJxd2p93XdvTL6uSHGXj2ZCx6Qt''"
    by simp
  show ?thesis
    using a b c d
      processFundSplit_minimum_deposit [of "''regularUserWallet''" None "0.05"
        "\<lparr>nowKey = 1000, nowTransfer = 1001, nowSplit = 1002, sendResult = Some ''sig1''\<rparr>"
        newFundManager "''s1''" None]
      processFundSplit_minimum_deposit [of "''regularUserWallet''" None "0.1"
        "\<lparr>nowKey = 1000, nowTransfer = 1001, nowSplit = 1002, sendResult = Some ''sig1''\<rparr>"
        newFundManager "''s1''" None]
    by blast
qed

text \<open>
  C6, as stated, fails: a regular user wallet and 0.01 SOL, with the privileged funding
  wallet given as the funding source. The validation is skipped, the split is recorded
  and the fee of 0.0025 SOL is transferred.
\<close>

theorem processFundSplit_minimum_deposit_counterexample:
  "\<not> isPrivilegedWallet ''regularUserWallet'' \<and> (0.01 :: rat) < MINIMUM_DEPOSIT_SOL
   \<and> processFundSplit
         \<lparr>nowKey = 1000, nowTransfer = 1001, nowSplit = 1002, sendResult = Some ''sig1''\<rparr>
         newFundManager ''s1'' ''regularUserWallet'' 0.01 None
         (Some ''2EJEuS1UaXaratBSiJJxd2p93XdvTL6uSHGXj2ZCx6Qt'')
     = (Inr \<lparr>userTradingAmount = 0.0075, revenueAmount = 0.0025, totalAmount = 0.01,
          revenueWallet = REVENUE_WALLET, timestamp = 1002\<rparr>,
        \<lparr>processedTransactions = {},
         fundSplits = [((''s1'', 0.01, 1000),
            \<lparr>userTradingAmount = 0.0075, revenueAmount = 0.0025, totalAmount = 0.01,
             revenueWallet = REVENUE_WALLET, timestamp = 1002\<rparr>)],
         revenueTransfers = [\<lparr>fromWallet = ''regularUserWallet'', toWallet = REVENUE_WALLET,
            amount = 0.0025, signature = ''sig1'', transferTimestamp = 1001,
            transferPurpose = REVENUE_COLLECTION\<rparr>]\<rparr>)"
  by (simp add: fund_eval)

section \<open>The split\<close>





section \<open>Duplicate funding events\<close>

lemma processFundSplit_seen_transaction:
  assumes "tx \<noteq> []" and "tx \<in> processedTransactions fm"
  shows "\<exists>e. processFundSplit env fm sid userKeypair totalAmt (Some tx) fundingSource
             = (Inl e, fm)"
  using assms
  by (auto simp: processFundSplit_def Let_def truthy_def split: option.splits)

lemma processFundSplit_same_key:
  assumes "map_of (fundSplits fm) (sid, totalAmt, nowKey env) \<noteq> None"
  shows "\<exists>e. processFundSplit env fm sid userKeypair totalAmt transactionId fundingSource
             = (Inl e, fm)"
  using assms
  by (auto simp: processFundSplit_def Let_def split: option.splits)

text \<open>
  C1. The claim asks that a second \<^verbatim>\<open>processFundSplit\<close> for the same session and
  amount is refused. The key under which a split is stored contains the clock, so the
  test \<^verbatim>\<open>fundSplits.has(splitKey)\<close> only sees a split made in the same millisecond.
  Evaluated: session \<^verbatim>\<open>s1\<close>, 1 SOL, no transaction id, at times 1000 and 5000. The
  first call stores a split for the session; the second call succeeds all the same, a
  second split is stored for the session and the fee of 0.25 SOL is transferred a second
  time.
\<close>

theorem processFundSplit_same_event_twice:
  "(let fm1 = snd (processFundSplit
               \<lparr>nowKey = 1000, nowTransfer = 1001, nowSplit = 1002, sendResult = Some ''sig1''\<rparr>
               newFundManager ''s1'' ''userWallet'' 1 None None);
        r2 = processFundSplit
               \<lparr>nowKey = 5000, nowTransfer = 5001, nowSplit = 5002, sendResult = Some ''sig2''\<rparr>
               fm1 ''s1'' ''userWallet'' 1 None None
    in map fst (fundSplits fm1) = [(''s1'', 1, 1000)]
     \<and> fst r2 = Inr \<lparr>userTradingAmount = 0.75, revenueAmount = 0.25, totalAmount = 1,
          revenueWallet = REVENUE_WALLET, timestamp = 5002\<rparr>
     \<and> map fst (fundSplits (snd r2)) = [(''s1'', 1, 1000), (''s1'', 1, 5000)]
     \<and> map amount (revenueTransfers (snd r2)) = [0.25, 0.25])"
  by (simp add: fund_eval)

section \<open>The trade amount\<close>






section \<open>Completion in the stored record\<close>

lemma findIndex_Some:
  "findIndex P xs = Some i \<Longrightarrow> i < length xs \<and> P (xs ! i)"
proof (induction xs arbitrary: i)
  case Nil
  then show ?case by simp
next
  case (Cons x xs)
  then show ?case by (auto split: if_splits)
qed



text \<open>
  With a recorded deposit of zero the quotient is not a number and the session is not
  completed, whatever the claim's inequality says.
\<close>

lemma updateTradingStats_zero_deposit:
  "status (updateTradingStats 5000 [examplePersistent\<lparr>initialDeposit := 0\<rparr>]
             ''session_1'' 40 0.72 0 ! 0) = trading"
  by (simp add: updateTradingStats_def examplePersistent_def js_divide_def)

section \<open>Depletion\<close>

lemma sessionObjects_updateSession [simp]:
  "sessionObjects (updateSession svc r f) = (sessionObjects svc)(r := f (sessionObjects svc r))"
  and activeSessions_updateSession [simp]:
  "activeSessions (updateSession svc r f) = activeSessions svc"
  and balanceCheckers_updateSession [simp]:
  "balanceCheckers (updateSession svc r f) = balanceCheckers svc"
  and persistedSessions_updateSession [simp]:
  "persistedSessions (updateSession svc r f) = persistedSessions svc"
  and nextHandle_updateSession [simp]:
  "nextHandle (updateSession svc r f) = nextHandle svc"
  and nextObject_updateSession [simp]:
  "nextObject (updateSession svc r f) = nextObject svc"
  by (simp_all add: updateSession_def)

lemma inactive_update: "\<not> isActive s \<Longrightarrow> s\<lparr>isActive := False\<rparr> = s"
  by (cases s) simp

lemma updateSession_inactive:
  "\<not> isActive (sessionObjects svc r) \<Longrightarrow> updateSession svc r (\<lambda>s. s\<lparr>isActive := False\<rparr>) = svc"
  by (simp add: updateSession_def inactive_update)

lemma stopTradingSession_effects:
  "\<forall>e \<in> set (snd (snd (stopTradingSession svc sid))). \<not> isTrade e \<and> \<not> isSetTimeout e"
  by (auto simp: stopTradingSession_def Let_def split: option.splits)

lemma balanceCheckers_same:
  "balanceCheckers svc = b \<Longrightarrow> svc\<lparr>balanceCheckers := b\<rparr> = svc"
  by (cases svc) simp

lemma stopTradingSession_registered:
  assumes "activeSessions svc sid = Some r"
  shows "fst (snd (stopTradingSession svc sid))
           = (updateSession svc r (\<lambda>s. s\<lparr>isActive := False\<rparr>))
               \<lparr>balanceCheckers := (balanceCheckers svc)(sid := None)\<rparr>"
proof (cases "balanceCheckers svc sid")
  case None
  then have "(balanceCheckers svc)(sid := None) = balanceCheckers svc"
    by (simp add: fun_upd_idem)
  then have "(updateSession svc r (\<lambda>s. s\<lparr>isActive := False\<rparr>))
               \<lparr>balanceCheckers := (balanceCheckers svc)(sid := None)\<rparr>
             = updateSession svc r (\<lambda>s. s\<lparr>isActive := False\<rparr>)"
    by (simp add: balanceCheckers_same)
  then show ?thesis using assms None by (simp add: stopTradingSession_def Let_def)
next
  case (Some c)
  then show ?thesis using assms by (simp add: stopTradingSession_def Let_def)
qed

lemma executeNextTrade_stops:
  assumes "\<not> isActive (sessionObjects svc r)
           \<or> tradingBalance (sessionObjects svc r) < minimumBalanceForTrade"
  shows "executeNextTrade env svc r
           = snd (stopTradingSession svc (sessionId (sessionObjects svc r)))"
  using assms by (auto simp: executeNextTrade_def Let_def)

lemma executeNextTrade_stopped_noop:
  assumes "\<not> isActive (sessionObjects svc r)"
    and "activeSessions svc (sessionId (sessionObjects svc r)) = Some r"
    and "balanceCheckers svc (sessionId (sessionObjects svc r)) = None"
  shows "fst (executeNextTrade env svc r) = svc"
proof -
  have "fst (executeNextTrade env svc r)
          = (updateSession svc r (\<lambda>s. s\<lparr>isActive := False\<rparr>))
               \<lparr>balanceCheckers := (balanceCheckers svc)(sessionId (sessionObjects svc r) := None)\<rparr>"
    using assms(1) stopTradingSession_registered [OF assms(2)]
    by (simp add: executeNextTrade_stops)
  also have "\<dots> = svc\<lparr>balanceCheckers := balanceCheckers svc\<rparr>"
    using assms(1,3) by (simp add: updateSession_inactive fun_upd_idem)
  finally show ?thesis by (simp add: balanceCheckers_same)
qed

lemma executeNextTrade_stop_effects:
  assumes "\<not> isActive (sessionObjects svc r)
           \<or> tradingBalance (sessionObjects svc r) < minimumBalanceForTrade"
  shows "\<forall>e \<in> set (snd (executeNextTrade env svc r)). \<not> isTrade e \<and> \<not> isSetTimeout e"
  using stopTradingSession_effects [of svc "sessionId (sessionObjects svc r)"]
  by (simp add: executeNextTrade_stops [OF assms])

lemma runTicks_stopped:
  assumes "\<not> isActive (sessionObjects svc r)"
    and "activeSessions svc (sessionId (sessionObjects svc r)) = Some r"
    and "balanceCheckers svc (sessionId (sessionObjects svc r)) = None"
  shows "fst (runTicks envs svc r) = svc
       \<and> (\<forall>e \<in> set (snd (runTicks envs svc r)). \<not> isTrade e \<and> \<not> isSetTimeout e)"
proof (induction envs)
  case Nil
  then show ?case by simp
next
  case (Cons env envs)
  have a: "fst (executeNextTrade env svc r) = svc"
    by (rule executeNextTrade_stopped_noop [OF assms])
  have b: "\<forall>e \<in> set (snd (executeNextTrade env svc r)). \<not> isTrade e \<and> \<not> isSetTimeout e"
    by (rule executeNextTrade_stop_effects) (simp add: assms(1))
  show ?case using a b Cons.IH
    by (auto simp: split_beta)
qed

text \<open>
  C4. A run of \<^verbatim>\<open>executeNextTrade\<close> on a session whose trading balance is below
  0.001 SOL, the session being the object registered under its id: the session is
  inactive afterwards (the state the service reports as completed), the run attempts no
  trade and sets no timer, and any number of further runs leave the state as it is and
  attempt no trade either. The witness is a session with a balance of 0.0009 SOL.
\<close>

theorem executeNextTrade_depleted:
  assumes "tradingBalance (sessionObjects svc r) < minimumBalanceForTrade"
    and "activeSessions svc (sessionId (sessionObjects svc r)) = Some r"
  shows "\<not> isActive (sessionObjects (fst (executeNextTrade env svc r)) r)
       \<and> (\<forall>e \<in> set (snd (executeNextTrade env svc r)). \<not> isTrade e \<and> \<not> isSetTimeout e)
       \<and> fst (runTicks envs (fst (executeNextTrade env svc r)) r)
           = fst (executeNextTrade env svc r)
       \<and> (\<forall>e \<in> set (snd (runTicks envs (fst (executeNextTrade env svc r)) r)).
             \<not> isTrade e \<and> \<not> isSetTimeout e)"
proof -
  define sid where "sid = sessionId (sessionObjects svc r)"
  define svc' where "svc' = fst (executeNextTrade env svc r)"
  have s: "svc' = (updateSession svc r (\<lambda>s. s\<lparr>isActive := False\<rparr>))
               \<lparr>balanceCheckers := (balanceCheckers svc)(sid := None)\<rparr>"
    unfolding svc'_def sid_def
    using assms(1) stopTradingSession_registered [OF assms(2)]
    by (simp add: executeNextTrade_stops)
  have i: "\<not> isActive (sessionObjects svc' r)" by (simp add: s)
  have n: "sessionId (sessionObjects svc' r) = sid" by (simp add: s sid_def)
  have a: "activeSessions svc' (sessionId (sessionObjects svc' r)) = Some r"
    using assms(2) by (simp add: n) (simp add: s sid_def)
  have b: "balanceCheckers svc' (sessionId (sessionObjects svc' r)) = None"
    by (simp add: n) (simp add: s)
  have e: "\<forall>e \<in> set (snd (executeNextTrade env svc r)). \<not> isTrade e \<and> \<not> isSetTimeout e"
    by (rule executeNextTrade_stop_effects) (simp add: assms(1))
  show ?thesis
    using i e runTicks_stopped [OF i a b, of envs] by (simp add: svc'_def)
qed

theorem executeNextTrade_depleted_witness:
  "tradingBalance (sessionObjects (exampleService (exampleSession\<lparr>tradingBalance := 0.0009\<rparr>) []) 0)
     < minimumBalanceForTrade
   \<and> activeSessions (exampleService (exampleSession\<lparr>tradingBalance := 0.0009\<rparr>) [])
        (sessionId (sessionObjects (exampleService (exampleSession\<lparr>tradingBalance := 0.0009\<rparr>) []) 0))
      = Some 0
   \<and> \<not> isActive (sessionObjects (fst (executeNextTrade (exampleEnv (Success ''sig1''))
          (exampleService (exampleSession\<lparr>tradingBalance := 0.0009\<rparr>) []) 0)) 0)
   \<and> snd (executeNextTrade (exampleEnv (Success ''sig1''))
          (exampleService (exampleSession\<lparr>tradingBalance := 0.0009\<rparr>) []) 0) = []
   \<and> fst (runTicks [exampleEnv (Success ''sig2''), exampleEnv (Failure None)]
          (fst (executeNextTrade (exampleEnv (Success ''sig1''))
             (exampleService (exampleSession\<lparr>tradingBalance := 0.0009\<rparr>) []) 0)) 0)
      = fst (executeNextTrade (exampleEnv (Success ''sig1''))
             (exampleService (exampleSession\<lparr>tradingBalance := 0.0009\<rparr>) []) 0)"
proof -
  have a: "tradingBalance (sessionObjects (exampleService (exampleSession\<lparr>tradingBalance := 0.0009\<rparr>) []) 0)
     < minimumBalanceForTrade"
    by (simp add: exampleService_def exampleSession_def minimumBalanceForTrade_def)
  have b: "activeSessions (exampleService (exampleSession\<lparr>tradingBalance := 0.0009\<rparr>) [])
        (sessionId (sessionObjects (exampleService (exampleSession\<lparr>tradingBalance := 0.0009\<rparr>) []) 0))
      = Some 0"
    by (simp add: exampleService_def exampleSession_def)
  have c: "snd (executeNextTrade (exampleEnv (Success ''sig1''))
          (exampleService (exampleSession\<lparr>tradingBalance := 0.0009\<rparr>) []) 0) = []"
    by (simp add: executeNextTrade_def stopTradingSession_def exampleService_def
        exampleSession_def minimumBalanceForTrade_def Let_def)
  show ?thesis
    using a b c
      executeNextTrade_depleted [OF a b, of "exampleEnv (Success ''sig1'')"
        "[exampleEnv (Success ''sig2''), exampleEnv (Failure None)]"]
    by blast
qed

section \<open>Errors in the loops\<close>

lemma setTimeout_simps [simp]:
  "fst (setTimeout svc cb d) = nextHandle svc"
  "fst (snd (setTimeout svc cb d)) = svc\<lparr>nextHandle := Suc (nextHandle svc)\<rparr>"
  "snd (snd (setTimeout svc cb d)) = [SetTimeout (nextHandle svc) d cb]"
  by (simp_all add: setTimeout_def)

lemma scheduleTrade_eq:
  "scheduleTrade svc r d =
     (updateSession (svc\<lparr>nextHandle := Suc (nextHandle svc)\<rparr>) r
        (\<lambda>s. s\<lparr>intervalId := Some (nextHandle svc)\<rparr>),
      [SetTimeout (nextHandle svc) d ExecuteNextTrade])"
  by (simp add: scheduleTrade_def setTimeout_def)

lemma executeNextTrade_error:
  assumes "isActive (sessionObjects svc r)"
    and "minimumBalanceForTrade \<le> tradingBalance (sessionObjects svc r)"
    and "executionError env"
  shows "fst (executeNextTrade env svc r)
           = updateSession (svc\<lparr>nextHandle := Suc (nextHandle svc)\<rparr>) r
               (\<lambda>s. s\<lparr>intervalId := Some (nextHandle svc)\<rparr>)"
    and "filter isSetTimeout (snd (executeNextTrade env svc r))
           = [SetTimeout (nextHandle svc)
                (if transactionKeypair env = None \<or> tradeOutcome env = Throws
                 then 10000 else 7000) ExecuteNextTrade]"
  using assms
  by (auto simp: executeNextTrade_def executionError_def Let_def scheduleNextTrade_def
      retryAfterError_def scheduleTrade_eq split: option.splits tradeResult.splits)

text \<open>
  C5. Any number of consecutive runs that each meet an execution error leave the session
  of \<^verbatim>\<open>startTradingLoop\<close> active, with its balance, its trade count, the stored
  sessions and the registry unchanged, and every one of the runs schedules the next run.
  Likewise for the interval callback of \<^verbatim>\<open>startContinuousTrading\<close>: the interval is
  never cleared, the side and the trade count stay, and the session is not marked
  completed. Neither loop has a failed state to move to.
\<close>

theorem runTicks_errors_never_stop:
  "(isActive (sessionObjects svc r)
      \<and> minimumBalanceForTrade \<le> tradingBalance (sessionObjects svc r)
      \<and> (\<forall>env \<in> set envs. executionError env) \<longrightarrow>
      isActive (sessionObjects (fst (runTicks envs svc r)) r)
      \<and> tradingBalance (sessionObjects (fst (runTicks envs svc r)) r)
          = tradingBalance (sessionObjects svc r)
      \<and> totalTrades (sessionObjects (fst (runTicks envs svc r)) r)
          = totalTrades (sessionObjects svc r)
      \<and> persistedSessions (fst (runTicks envs svc r)) = persistedSessions svc
      \<and> activeSessions (fst (runTicks envs svc r)) = activeSessions svc
      \<and> length (filter isSetTimeout (snd (runTicks envs svc r))) = length envs)
   \<and> (tradingInterval st \<and> (\<forall>env \<in> set venvs. volumeError env) \<longrightarrow>
      tradingInterval (fst (runVolumeTicks venvs st))
      \<and> tradeCount (fst (runVolumeTicks venvs st)) = tradeCount st
      \<and> currentTradeType (fst (runVolumeTicks venvs st)) = currentTradeType st
      \<and> MarkCompleted \<notin> set (snd (runVolumeTicks venvs st)))"
proof (intro conjI impI)
  assume h: "isActive (sessionObjects svc r)
      \<and> minimumBalanceForTrade \<le> tradingBalance (sessionObjects svc r)
      \<and> (\<forall>env \<in> set envs. executionError env)"
  have "isActive (sessionObjects (fst (runTicks envs svc r)) r)
      \<and> tradingBalance (sessionObjects (fst (runTicks envs svc r)) r)
          = tradingBalance (sessionObjects svc r)
      \<and> totalTrades (sessionObjects (fst (runTicks envs svc r)) r)
          = totalTrades (sessionObjects svc r)
      \<and> persistedSessions (fst (runTicks envs svc r)) = persistedSessions svc
      \<and> activeSessions (fst (runTicks envs svc r)) = activeSessions svc
      \<and> length (filter isSetTimeout (snd (runTicks envs svc r))) = length envs"
    using h
  proof (induction envs arbitrary: svc)
    case Nil
    then show ?case by simp
  next
    case (Cons env envs)
    define svc1 where "svc1 = fst (executeNextTrade env svc r)"
    have e: "executionError env" using Cons.prems by simp
    have s1: "svc1 = updateSession (svc\<lparr>nextHandle := Suc (nextHandle svc)\<rparr>) r
               (\<lambda>s. s\<lparr>intervalId := Some (nextHandle svc)\<rparr>)"
      unfolding svc1_def using Cons.prems e by (simp add: executeNextTrade_error(1))
    have f1: "length (filter isSetTimeout (snd (executeNextTrade env svc r))) = 1"
      using Cons.prems e by (simp add: executeNextTrade_error(2))
    have p: "isActive (sessionObjects svc1 r)
      \<and> minimumBalanceForTrade \<le> tradingBalance (sessionObjects svc1 r)
      \<and> (\<forall>env \<in> set envs. executionError env)"
      using Cons.prems by (simp add: s1)
    have q: "tradingBalance (sessionObjects svc1 r) = tradingBalance (sessionObjects svc r)"
      "totalTrades (sessionObjects svc1 r) = totalTrades (sessionObjects svc r)"
      "persistedSessions svc1 = persistedSessions svc"
      "activeSessions svc1 = activeSessions svc"
      by (simp_all add: s1)
    have step: "runTicks (env # envs) svc r
               = (fst (runTicks envs svc1 r),
                  snd (executeNextTrade env svc r) @ snd (runTicks envs svc1 r))"
      by (simp add: svc1_def split_beta)
    show ?case
      unfolding step using Cons.IH [OF p] f1 by (simp add: q)
  qed
  then show "isActive (sessionObjects (fst (runTicks envs svc r)) r)"
    and "tradingBalance (sessionObjects (fst (runTicks envs svc r)) r)
          = tradingBalance (sessionObjects svc r)"
    and "totalTrades (sessionObjects (fst (runTicks envs svc r)) r)
          = totalTrades (sessionObjects svc r)"
    and "persistedSessions (fst (runTicks envs svc r)) = persistedSessions svc"
    and "activeSessions (fst (runTicks envs svc r)) = activeSessions svc"
    and "length (filter isSetTimeout (snd (runTicks envs svc r))) = length envs"
    by simp_all
next
  assume h: "tradingInterval st \<and> (\<forall>env \<in> set venvs. volumeError env)"
  have "tradingInterval (fst (runVolumeTicks venvs st))
      \<and> tradeCount (fst (runVolumeTicks venvs st)) = tradeCount st
      \<and> currentTradeType (fst (runVolumeTicks venvs st)) = currentTradeType st
      \<and> MarkCompleted \<notin> set (snd (runVolumeTicks venvs st))"
    using h
  proof (induction venvs arbitrary: st)
    case Nil
    then show ?case by simp
  next
    case (Cons env venvs)
    define st1 where "st1 = fst (continuousTradingTick env st)"
    have e: "volumeError env" using Cons.prems by simp
    have t: "tradingInterval st1 = tradingInterval st \<and> tradeCount st1 = tradeCount st
           \<and> currentTradeType st1 = currentTradeType st
           \<and> MarkCompleted \<notin> set (snd (continuousTradingTick env st))"
      unfolding st1_def using e
      by (auto simp: continuousTradingTick_def volumeError_def continuousTradingCatch_def
          Let_def split: call.splits option.splits if_splits)
    have p: "tradingInterval st1 \<and> (\<forall>env \<in> set venvs. volumeError env)"
      using Cons.prems t by simp
    have step: "runVolumeTicks (env # venvs) st
               = (fst (runVolumeTicks venvs st1),
                  snd (continuousTradingTick env st) @ snd (runVolumeTicks venvs st1))"
      by (simp add: st1_def split_beta)
    show ?case unfolding step using Cons.IH [OF p] t by simp
  qed
  then show "tradingInterval (fst (runVolumeTicks venvs st))"
    and "tradeCount (fst (runVolumeTicks venvs st)) = tradeCount st"
    and "currentTradeType (fst (runVolumeTicks venvs st)) = currentTradeType st"
    and "MarkCompleted \<notin> set (snd (runVolumeTicks venvs st))"
    by simp_all
qed

theorem runTicks_errors_never_stop_witness:
  "isActive (sessionObjects (exampleService exampleSession [examplePersistent]) 0)
   \<and> minimumBalanceForTrade
       \<le> tradingBalance (sessionObjects (exampleService exampleSession [examplePersistent]) 0)
   \<and> executionError (exampleEnv (Failure (Some ''Jupiter API unavailable'')))
   \<and> tradingInterval startContinuousTrading
   \<and> volumeError \<lparr>getUserSession = Returns (Some \<lparr>fundingAmount = 1, availableBalance = 0.5\<rparr>),
                    executeRealTrade = Returns None\<rparr>
   \<and> isActive (sessionObjects (fst (runTicks
         (replicate 10 (exampleEnv (Failure (Some ''Jupiter API unavailable''))))
         (exampleService exampleSession [examplePersistent]) 0)) 0)
   \<and> length (filter isSetTimeout (snd (runTicks
         (replicate 10 (exampleEnv (Failure (Some ''Jupiter API unavailable''))))
         (exampleService exampleSession [examplePersistent]) 0))) = 10
   \<and> map status (persistedSessions (fst (runTicks
         (replicate 10 (exampleEnv (Failure (Some ''Jupiter API unavailable''))))
         (exampleService exampleSession [examplePersistent]) 0))) = [trading]
   \<and> tradingInterval (fst (runVolumeTicks
         (replicate 10 \<lparr>getUserSession = Returns (Some \<lparr>fundingAmount = 1, availableBalance = 0.5\<rparr>),
                        executeRealTrade = Returns None\<rparr>)
         startContinuousTrading))"
proof -
  have a: "isActive (sessionObjects (exampleService exampleSession [examplePersistent]) 0)"
    by (simp add: exampleService_def exampleSession_def)
  have b: "minimumBalanceForTrade
       \<le> tradingBalance (sessionObjects (exampleService exampleSession [examplePersistent]) 0)"
    by (simp add: exampleService_def exampleSession_def minimumBalanceForTrade_def)
  have c: "executionError (exampleEnv (Failure (Some ''Jupiter API unavailable'')))"
    by (simp add: executionError_def exampleEnv_def)
  have d: "tradingInterval startContinuousTrading"
    by (simp add: startContinuousTrading_def)
  have e: "volumeError \<lparr>getUserSession = Returns (Some \<lparr>fundingAmount = 1, availableBalance = 0.5\<rparr>),
                    executeRealTrade = Returns None\<rparr>"
    by (simp add: volumeError_def truthy_def)
  have c': "\<forall>env \<in> set (replicate 10 (exampleEnv (Failure (Some ''Jupiter API unavailable'')))).
              executionError env"
    using c by simp
  have e': "\<forall>env \<in> set (replicate 10
              \<lparr>getUserSession = Returns (Some \<lparr>fundingAmount = 1, availableBalance = 0.5\<rparr>),
               executeRealTrade = Returns None\<rparr>). volumeError env"
    using e by simp
  have p: "map status (persistedSessions (exampleService exampleSession [examplePersistent]))
             = [trading]"
    by (simp add: exampleService_def examplePersistent_def)
  have l: "length (replicate 10 (exampleEnv (Failure (Some ''Jupiter API unavailable'')))) = 10"
    by simp
  show ?thesis
    using a b c d e c' e' p l
      runTicks_errors_never_stop [of "exampleService exampleSession [examplePersistent]" 0
        "replicate 10 (exampleEnv (Failure (Some ''Jupiter API unavailable'')))"
        startContinuousTrading
        "replicate 10 \<lparr>getUserSession = Returns (Some \<lparr>fundingAmount = 1, availableBalance = 0.5\<rparr>),
                        executeRealTrade = Returns None\<rparr>"]
    by metis
qed

section \<open>Sides\<close>

lemma attemptedSide_stop [simp]:
  "attemptedSide (snd (snd (stopTradingSession svc sid))) = None"
  by (auto simp: stopTradingSession_def Let_def split: option.splits)

lemma totalTrades_stop [simp]:
  "totalTrades (sessionObjects (fst (snd (stopTradingSession svc sid))) r)
     = totalTrades (sessionObjects svc r)"
  by (auto simp: stopTradingSession_def Let_def split: option.splits)

lemma attemptedSide_scheduleNextTrade [simp]:
  "attemptedSide (snd (scheduleNextTrade svc r)) = None"
  by (simp add: scheduleNextTrade_def Let_def scheduleTrade_eq)

lemma totalTrades_scheduleNextTrade [simp]:
  "totalTrades (sessionObjects (fst (scheduleNextTrade svc r)) r)
     = totalTrades (sessionObjects svc r)"
  by (simp add: scheduleNextTrade_def Let_def scheduleTrade_eq)

lemma attemptedSide_retryAfterError [simp]:
  "attemptedSide (snd (retryAfterError svc r)) = None"
  by (simp add: retryAfterError_def scheduleTrade_eq)

lemma totalTrades_retryAfterError [simp]:
  "totalTrades (sessionObjects (fst (retryAfterError svc r)) r)
     = totalTrades (sessionObjects svc r)"
  by (simp add: retryAfterError_def scheduleTrade_eq)

lemma executeNextTrade_attempt:
  assumes "attemptedSide (snd (executeNextTrade env svc r)) = Some t"
  shows "t = (if totalTrades (sessionObjects svc r) mod 2 = 0 then BUY else SELL)"
    and "totalTrades (sessionObjects (fst (executeNextTrade env svc r)) r)
           = (case tradeOutcome env of
                Success sig \<Rightarrow> totalTrades (sessionObjects svc r) + 1
              | Failure err \<Rightarrow> totalTrades (sessionObjects svc r)
              | Throws \<Rightarrow> totalTrades (sessionObjects svc r))"
  using assms
  by (auto simp: executeNextTrade_def Let_def split_beta
      split: if_splits option.splits tradeResult.splits)

lemma side_flip:
  "(if (n + 1) mod 2 = 0 then BUY else SELL) = opposite (if n mod 2 = 0 then BUY else SELL)"
  for n :: nat
  by (cases "n mod 2 = 0") (simp_all add: mod_Suc)

lemma attemptedSide_scheduleLoop [simp]:
  "attemptedSide (snd (scheduleLoop st es)) = attemptedSide es"
  by (induction es rule: attemptedSide.induct) (simp_all add: scheduleLoop_def setTimeout_def)

lemma scheduleLoop_state [simp]:
  "snd (fst (scheduleLoop st es)) = snd st"
  "sessionObjects (fst (fst (scheduleLoop st es))) = sessionObjects (fst st)"
  by (simp_all add: scheduleLoop_def setTimeout_def)

lemma tradingLoop_attempt:
  assumes "attemptedSide (snd (tradingLoop env st)) = Some t"
  shows "t = (if isNextTradeBuy (snd st) then BUY else SELL)"
    and "isNextTradeBuy (snd (fst (tradingLoop env st)))
           = (case tradeOutcome env of
                Success sig \<Rightarrow> \<not> isNextTradeBuy (snd st)
              | Failure err \<Rightarrow>
                  (if sellAmountTooSmall t err then \<not> isNextTradeBuy (snd st)
                   else isNextTradeBuy (snd st))
              | Throws \<Rightarrow> isNextTradeBuy (snd st))"
  using assms
  by (auto simp: tradingLoop_def Let_def split: if_splits option.splits tradeResult.splits)

lemma tradingLoop_invariant:
  assumes "isNextTradeBuy (snd st)
             \<longleftrightarrow> even (totalTrades (sessionObjects (fst st) (loopSession (snd st))))"
  shows "isNextTradeBuy (snd (fst (tradingLoop env st)))
             \<longleftrightarrow> even (totalTrades (sessionObjects (fst (fst (tradingLoop env st)))
                     (loopSession (snd (fst (tradingLoop env st))))))"
  using assms
  by (auto simp: tradingLoop_def Let_def split: if_splits option.splits tradeResult.splits)

text \<open>
  C3, as amended. In the loop of \<^verbatim>\<open>startTradingLoop\<close> the side of an attempted trade is
  BUY exactly when the session's count of completed trades is even; after a failed
  attempt the next attempt has the same side, after a successful one the other side. The
  loop of \<^verbatim>\<open>executeNeverStopTradingLoop\<close> starts with BUY and a count of zero and keeps
  "the next side is BUY exactly when the count is even"; after a failed attempt the next
  attempt has the same side, except after a failed SELL whose error says
  \<^verbatim>\<open>sell amount too small\<close>: that one is counted as completed and the side flips.
\<close>

theorem trade_sides_alternate:
  "(attemptedSide (snd (executeNextTrade env1 svc r)) = Some t1 \<longrightarrow>
      (t1 = BUY \<longleftrightarrow> even (totalTrades (sessionObjects svc r)))
      \<and> (attemptedSide (snd (executeNextTrade env2 (fst (executeNextTrade env1 svc r)) r)) = Some t2
           \<longrightarrow> t2 = (case tradeOutcome env1 of
                       Success sig \<Rightarrow> opposite t1 | Failure err \<Rightarrow> t1 | Throws \<Rightarrow> t1)))
   \<and> isNextTradeBuy (snd (executeNeverStopTradingLoop svc r))
   \<and> totalTrades (sessionObjects (fst (executeNeverStopTradingLoop svc r)) r) = 0
   \<and> ((isNextTradeBuy (snd st)
          \<longleftrightarrow> even (totalTrades (sessionObjects (fst st) (loopSession (snd st)))))
        \<longrightarrow> (isNextTradeBuy (snd (fst (tradingLoop env1 st)))
          \<longleftrightarrow> even (totalTrades (sessionObjects (fst (fst (tradingLoop env1 st)))
                     (loopSession (snd (fst (tradingLoop env1 st))))))))
   \<and> (attemptedSide (snd (tradingLoop env1 st)) = Some u1 \<longrightarrow>
      (u1 = BUY \<longleftrightarrow> isNextTradeBuy (snd st))
      \<and> (attemptedSide (snd (tradingLoop env2 (fst (tradingLoop env1 st)))) = Some u2
           \<longrightarrow> u2 = (case tradeOutcome env1 of
                       Success sig \<Rightarrow> opposite u1
                     | Failure err \<Rightarrow> (if sellAmountTooSmall u1 err then opposite u1 else u1)
                     | Throws \<Rightarrow> u1)))"
proof (intro conjI impI)
  assume a: "attemptedSide (snd (executeNextTrade env1 svc r)) = Some t1"
  show "t1 = BUY \<longleftrightarrow> even (totalTrades (sessionObjects svc r))"
    using executeNextTrade_attempt(1) [OF a] by (simp add: even_iff_mod_2_eq_zero)
  assume b: "attemptedSide (snd (executeNextTrade env2 (fst (executeNextTrade env1 svc r)) r))
               = Some t2"
  define n where "n = totalTrades (sessionObjects svc r)"
  define n' where "n' = totalTrades (sessionObjects (fst (executeNextTrade env1 svc r)) r)"
  have t1: "t1 = (if n mod 2 = 0 then BUY else SELL)"
    unfolding n_def by (rule executeNextTrade_attempt(1) [OF a])
  have t2: "t2 = (if n' mod 2 = 0 then BUY else SELL)"
    unfolding n'_def by (rule executeNextTrade_attempt(1) [OF b])
  have n': "n' = (case tradeOutcome env1 of
                Success sig \<Rightarrow> n + 1 | Failure err \<Rightarrow> n | Throws \<Rightarrow> n)"
    unfolding n_def n'_def by (rule executeNextTrade_attempt(2) [OF a])
  show "t2 = (case tradeOutcome env1 of
                       Success sig \<Rightarrow> opposite t1 | Failure err \<Rightarrow> t1 | Throws \<Rightarrow> t1)"
  proof (cases "tradeOutcome env1")
    case (Success sig)
    then have "n' = n + 1" using n' by simp
    then have "t2 = opposite t1" unfolding t1 t2 by (simp only: side_flip)
    then show ?thesis using Success by simp
  next
    case (Failure err)
    then have "n' = n" using n' by simp
    then show ?thesis using Failure t1 t2 by simp
  next
    case Throws
    then have "n' = n" using n' by simp
    then show ?thesis using Throws t1 t2 by simp
  qed
next
  show "isNextTradeBuy (snd (executeNeverStopTradingLoop svc r))"
    by (simp add: executeNeverStopTradingLoop_def)
next
  show "totalTrades (sessionObjects (fst (executeNeverStopTradingLoop svc r)) r) = 0"
    by (simp add: executeNeverStopTradingLoop_def)
next
  assume "isNextTradeBuy (snd st)
          \<longleftrightarrow> even (totalTrades (sessionObjects (fst st) (loopSession (snd st))))"
  then show "isNextTradeBuy (snd (fst (tradingLoop env1 st)))
          \<longleftrightarrow> even (totalTrades (sessionObjects (fst (fst (tradingLoop env1 st)))
                     (loopSession (snd (fst (tradingLoop env1 st))))))"
    by (rule tradingLoop_invariant)
next
  assume a: "attemptedSide (snd (tradingLoop env1 st)) = Some u1"
  show "u1 = BUY \<longleftrightarrow> isNextTradeBuy (snd st)"
    using tradingLoop_attempt(1) [OF a] by simp
  assume b: "attemptedSide (snd (tradingLoop env2 (fst (tradingLoop env1 st)))) = Some u2"
  have "u2 = (if isNextTradeBuy (snd (fst (tradingLoop env1 st))) then BUY else SELL)"
    by (rule tradingLoop_attempt(1) [OF b])
  then show "u2 = (case tradeOutcome env1 of
                       Success sig \<Rightarrow> opposite u1
                     | Failure err \<Rightarrow> (if sellAmountTooSmall u1 err then opposite u1 else u1)
                     | Throws \<Rightarrow> u1)"
    using tradingLoop_attempt [OF a] by (simp split: tradeResult.splits)
qed

lemmas loop_eval = executeNextTrade_def tradingLoop_def executeNeverStopTradingLoop_def
  scheduleLoop_def setTimeout_def scheduleNextTrade_def retryAfterError_def scheduleTrade_eq
  stopTradingSession_def calculateTradeAmount_def tradeVariations_def floor_numeral_divide
  minimumBalanceForTrade_def depletionThreshold_def sellAmountTooSmall_def truthy_def
  updateSession_def exampleService_def exampleSession_def exampleEnv_def Let_def

theorem trade_sides_alternate_witness:
  "attemptedSide (snd (executeNextTrade (exampleEnv (Failure (Some ''Jupiter API unavailable'')))
      (exampleService exampleSession []) 0)) = Some BUY
   \<and> even (totalTrades (sessionObjects (exampleService exampleSession []) 0))
   \<and> attemptedSide (snd (executeNextTrade (exampleEnv (Success ''sig2''))
        (fst (executeNextTrade (exampleEnv (Failure (Some ''Jupiter API unavailable'')))
           (exampleService exampleSession []) 0)) 0)) = Some BUY
   \<and> isNextTradeBuy (snd (executeNeverStopTradingLoop (exampleService exampleSession []) 0))
   \<and> attemptedSide (snd (tradingLoop (exampleEnv (Failure (Some ''Jupiter API unavailable'')))
        (executeNeverStopTradingLoop (exampleService exampleSession []) 0))) = Some BUY
   \<and> attemptedSide (snd (tradingLoop (exampleEnv (Success ''sig2''))
        (fst (tradingLoop (exampleEnv (Failure (Some ''Jupiter API unavailable'')))
           (executeNeverStopTradingLoop (exampleService exampleSession []) 0))))) = Some BUY
   \<and> isNextTradeBuy (snd (fst (tradingLoop (exampleEnv (Failure (Some ''Jupiter API unavailable'')))
        (executeNeverStopTradingLoop (exampleService exampleSession []) 0))))"
proof -
  have a: "attemptedSide (snd (executeNextTrade (exampleEnv (Failure (Some ''Jupiter API unavailable'')))
      (exampleService exampleSession []) 0)) = Some BUY"
    by (simp add: loop_eval)
  have b: "attemptedSide (snd (executeNextTrade (exampleEnv (Success ''sig2''))
        (fst (executeNextTrade (exampleEnv (Failure (Some ''Jupiter API unavailable'')))
           (exampleService exampleSession []) 0)) 0)) = Some BUY"
    by (simp add: loop_eval)
  have c: "attemptedSide (snd (tradingLoop (exampleEnv (Failure (Some ''Jupiter API unavailable'')))
        (executeNeverStopTradingLoop (exampleService exampleSession []) 0))) = Some BUY"
    by (simp add: loop_eval)
  have d: "attemptedSide (snd (tradingLoop (exampleEnv (Success ''sig2''))
        (fst (tradingLoop (exampleEnv (Failure (Some ''Jupiter API unavailable'')))
           (executeNeverStopTradingLoop (exampleService exampleSession []) 0))))) = Some BUY"
    by (simp add: loop_eval)
  have i: "isNextTradeBuy (snd (executeNeverStopTradingLoop (exampleService exampleSession []) 0))
     \<longleftrightarrow> even (totalTrades (sessionObjects
            (fst (executeNeverStopTradingLoop (exampleService exampleSession []) 0))
            (loopSession (snd (executeNeverStopTradingLoop (exampleService exampleSession []) 0)))))"
    by (simp add: executeNeverStopTradingLoop_def)
  have j: "isNextTradeBuy (snd (fst (tradingLoop (exampleEnv (Failure (Some ''Jupiter API unavailable'')))
        (executeNeverStopTradingLoop (exampleService exampleSession []) 0))))"
    by (simp add: loop_eval)
  show ?thesis
    using a b c d i j
      trade_sides_alternate [of "exampleEnv (Failure (Some ''Jupiter API unavailable''))"
        "exampleService exampleSession []" 0 BUY "exampleEnv (Success ''sig2'')" BUY
        "executeNeverStopTradingLoop (exampleService exampleSession []) 0" BUY BUY]
    by blast
qed

text \<open>
  C3, as stated, fails in the loop of \<^verbatim>\<open>executeNeverStopTradingLoop\<close>: after a
  successful BUY the SELL fails with the error of a sell amount that is too small, and
  the next attempt is a BUY, not the SELL again.
\<close>

theorem trade_sides_retry_counterexample:
  "attemptedSide (snd (tradingLoop
      (exampleEnv (Failure (Some ''SELL preparation failed: Calculated sell amount too small: 0 tokens'')))
      (fst (tradingLoop (exampleEnv (Success ''sig1''))
         (executeNeverStopTradingLoop (exampleService exampleSession []) 0))))) = Some SELL
   \<and> attemptedSide (snd (tradingLoop (exampleEnv (Success ''sig3''))
      (fst (tradingLoop
        (exampleEnv (Failure (Some ''SELL preparation failed: Calculated sell amount too small: 0 tokens'')))
        (fst (tradingLoop (exampleEnv (Success ''sig1''))
           (executeNeverStopTradingLoop (exampleService exampleSession []) 0))))))) = Some BUY"
  by (simp add: loop_eval updateSessionTrades_def)

section \<open>Recovery of a trading session\<close>

lemma findIndex_mem:
  "x \<in> set xs \<Longrightarrow> P x \<Longrightarrow> \<exists>i. findIndex P xs = Some i"
  by (induction xs) auto

lemma updateSessionStatus_completed:
  assumes "findIndex (\<lambda>s. p_sessionId s = sid) sessions = Some i"
  shows "status (updateSessionStatus now sessions sid completed id ! i) = completed"
    and "completedAt (updateSessionStatus now sessions sid completed id ! i) = Some now"
  using findIndex_Some [OF assms]
  by (simp_all add: updateSessionStatus_def assms Let_def)

lemma recoverSingleSession_resume:
  assumes "status p = trading" and "p_tradingBalance p > 0.001"
  shows "recoverSingleSession env svc p =
     resumeTrading env
       (svc\<lparr>sessionObjects := (sessionObjects svc)(nextObject svc :=
              \<lparr>sessionId = p_sessionId p, tokenAddress = p_tokenAddress p,
               userWallet = p_userWallet p, tradingBalance = p_tradingBalance p,
               primaryDex = p_primaryDex p, isActive = True, startTime = p_startTime p,
               totalTrades = p_totalTrades p, totalVolume = p_totalVolume p,
               lastTradeTime = p_lastTradeTime p, intervalId = None,
               forceWalletAddress = None\<rparr>),
            nextObject := Suc (nextObject svc),
            activeSessions := (activeSessions svc)(p_sessionId p \<mapsto> nextObject svc)\<rparr>)
       (nextObject svc)"
  using assms by (simp add: recoverSingleSession_def Let_def)

text \<open>
  The sweep of \<^verbatim>\<open>bulletproofSessionRecovery\<close> looks only at stored sessions with the
  status \<^verbatim>\<open>'active'\<close>: it passes over a session stored as \<^verbatim>\<open>'trading'\<close>.
\<close>

lemma bulletproofSessionRecovery_skips_trading:
  "status saved = trading \<Longrightarrow> bulletproofSessionRecovery env svc saved = (Skipped, svc)"
  by (simp add: bulletproofSessionRecovery_def)

text \<open>
  C9, as amended. \<^verbatim>\<open>recoverSingleSession\<close> on a stored session with status
  \<^verbatim>\<open>'trading'\<close>. With a stored trading balance above 0.001 SOL it reads the ledger
  balance before anything else: if that is below 0.001 SOL and no bypass flag is set on
  the stored record, the stored status becomes \<^verbatim>\<open>'completed'\<close> and no trading timer is
  set; if it is 0.001 SOL or more, or a bypass flag is set, the trading loop is started;
  if the ledger query throws, the stored status becomes \<^verbatim>\<open>'monitoring'\<close> and no trading
  timer is set. With a stored trading balance of 0.001 SOL or less nothing is read,
  stored or started.
\<close>

theorem recoverSingleSession_trading:
  assumes "status p = trading"
  shows "(p_tradingBalance p > 0.001 \<and> chainBalance env = Some b \<and> b < 0.001
          \<and> \<not> shouldBypassCheck (find (\<lambda>s. p_sessionId s = p_sessionId p)
                                   (getActiveSessions (persistedSessions svc))) \<longrightarrow>
            persistedSessions (fst (recoverSingleSession env svc p))
              = updateSessionStatus (clock env) (persistedSessions svc) (p_sessionId p) completed id
          \<and> (findIndex (\<lambda>s. p_sessionId s = p_sessionId p) (persistedSessions svc) = Some i \<longrightarrow>
                status (persistedSessions (fst (recoverSingleSession env svc p)) ! i) = completed)
          \<and> snd (recoverSingleSession env svc p) = [])
       \<and> (p_tradingBalance p > 0.001 \<and> chainBalance env = Some b
          \<and> (0.001 \<le> b \<or> shouldBypassCheck (find (\<lambda>s. p_sessionId s = p_sessionId p)
                                   (getActiveSessions (persistedSessions svc)))) \<longrightarrow>
            persistedSessions (fst (recoverSingleSession env svc p)) = persistedSessions svc
          \<and> snd (recoverSingleSession env svc p)
              = [SetTimeout (nextHandle svc) 2000 ExecuteNextTrade])
       \<and> (p_tradingBalance p > 0.001 \<and> chainBalance env = None \<longrightarrow>
            persistedSessions (fst (recoverSingleSession env svc p))
              = updateSessionStatus (clock env) (persistedSessions svc) (p_sessionId p) monitoring id
          \<and> (\<forall>e \<in> set (snd (recoverSingleSession env svc p)).
                \<forall>h d. e \<noteq> SetTimeout h d ExecuteNextTrade))
       \<and> (p_tradingBalance p \<le> 0.001 \<longrightarrow>
            persistedSessions (fst (recoverSingleSession env svc p)) = persistedSessions svc
          \<and> snd (recoverSingleSession env svc p) = [])"
proof (intro conjI impI)
  assume h: "p_tradingBalance p > 0.001 \<and> chainBalance env = Some b \<and> b < 0.001
          \<and> \<not> shouldBypassCheck (find (\<lambda>s. p_sessionId s = p_sessionId p)
                                   (getActiveSessions (persistedSessions svc)))"
  then have r: "recoverSingleSession env svc p =
      (fst (recoverSingleSession env svc p), [])
    \<and> persistedSessions (fst (recoverSingleSession env svc p))
         = updateSessionStatus (clock env) (persistedSessions svc) (p_sessionId p) completed id"
    using assms by (simp add: recoverSingleSession_resume resumeTrading_def Let_def)
  show "persistedSessions (fst (recoverSingleSession env svc p))
              = updateSessionStatus (clock env) (persistedSessions svc) (p_sessionId p) completed id"
    using r by simp
  show "snd (recoverSingleSession env svc p) = []"
    using r by (metis snd_conv)
  assume "findIndex (\<lambda>s. p_sessionId s = p_sessionId p) (persistedSessions svc) = Some i"
  then show "status (persistedSessions (fst (recoverSingleSession env svc p)) ! i) = completed"
    using r by (simp add: updateSessionStatus_completed(1))
next
  assume h: "p_tradingBalance p > 0.001 \<and> chainBalance env = Some b
          \<and> (0.001 \<le> b \<or> shouldBypassCheck (find (\<lambda>s. p_sessionId s = p_sessionId p)
                                   (getActiveSessions (persistedSessions svc))))"
  then show "persistedSessions (fst (recoverSingleSession env svc p)) = persistedSessions svc"
    using assms
    by (auto simp: recoverSingleSession_resume resumeTrading_def Let_def startTradingLoop_def
        scheduleTrade_eq split: option.splits)
  show "snd (recoverSingleSession env svc p) = [SetTimeout (nextHandle svc) 2000 ExecuteNextTrade]"
    using assms h
    by (auto simp: recoverSingleSession_resume resumeTrading_def Let_def startTradingLoop_def
        scheduleTrade_eq split: option.splits)
next
  assume h: "p_tradingBalance p > 0.001 \<and> chainBalance env = None"
  then show "persistedSessions (fst (recoverSingleSession env svc p))
              = updateSessionStatus (clock env) (persistedSessions svc) (p_sessionId p) monitoring id"
    using assms
    by (simp add: recoverSingleSession_resume resumeTrading_def Let_def startWalletMonitoring_def
        setTimeout_def)
  show "\<forall>e \<in> set (snd (recoverSingleSession env svc p)).
                \<forall>h d. e \<noteq> SetTimeout h d ExecuteNextTrade"
    using assms h
    by (simp add: recoverSingleSession_resume resumeTrading_def Let_def startWalletMonitoring_def
        setTimeout_def)
next
  assume h: "p_tradingBalance p \<le> 0.001"
  then show "persistedSessions (fst (recoverSingleSession env svc p)) = persistedSessions svc"
    using assms by (simp add: recoverSingleSession_def Let_def)
  show "snd (recoverSingleSession env svc p) = []"
    using assms h by (simp add: recoverSingleSession_def Let_def)
qed

lemmas recover_eval = recoverSingleSession_def resumeTrading_def shouldBypassCheck_def
  getActiveSessions_def startTradingLoop_def scheduleTrade_eq updateSessionStatus_def
  startWalletMonitoring_def setTimeout_def updateSession_def exampleService_def
  exampleSession_def examplePersistent_def exampleEnv_def Let_def

theorem recoverSingleSession_trading_witness:
  "status examplePersistent = trading
   \<and> p_tradingBalance examplePersistent > 0.001
   \<and> chainBalance ((exampleEnv Throws)\<lparr>chainBalance := Some 0.0005\<rparr>) = Some 0.0005
   \<and> (0.0005 :: rat) < 0.001
   \<and> \<not> shouldBypassCheck (find (\<lambda>s. p_sessionId s = p_sessionId examplePersistent)
          (getActiveSessions (persistedSessions (exampleService exampleSession [examplePersistent]))))
   \<and> findIndex (\<lambda>s. p_sessionId s = p_sessionId examplePersistent)
        (persistedSessions (exampleService exampleSession [examplePersistent])) = Some 0
   \<and> status (persistedSessions (fst (recoverSingleSession
            ((exampleEnv Throws)\<lparr>chainBalance := Some 0.0005\<rparr>)
            (exampleService exampleSession [examplePersistent]) examplePersistent)) ! 0) = completed
   \<and> snd (recoverSingleSession ((exampleEnv Throws)\<lparr>chainBalance := Some 0.0005\<rparr>)
            (exampleService exampleSession [examplePersistent]) examplePersistent) = []
   \<and> chainBalance (exampleEnv Throws) = Some 0.075 \<and> (0.001 :: rat) \<le> 0.075
   \<and> snd (recoverSingleSession (exampleEnv Throws)
            (exampleService exampleSession [examplePersistent]) examplePersistent)
       = [SetTimeout 1 2000 ExecuteNextTrade]
   \<and> p_tradingBalance (examplePersistent\<lparr>p_tradingBalance := 0.0005\<rparr>) \<le> 0.001
   \<and> snd (recoverSingleSession (exampleEnv Throws)
            (exampleService exampleSession [examplePersistent])
            (examplePersistent\<lparr>p_tradingBalance := 0.0005\<rparr>)) = []"
proof -
  have s: "status examplePersistent = trading" by (simp add: examplePersistent_def)
  have s': "status (examplePersistent\<lparr>p_tradingBalance := 0.0005\<rparr>) = trading"
    by (simp add: examplePersistent_def)
  have t: "p_tradingBalance examplePersistent > 0.001" by (simp add: examplePersistent_def)
  have t': "p_tradingBalance (examplePersistent\<lparr>p_tradingBalance := 0.0005\<rparr>) \<le> 0.001"
    by simp
  have c: "chainBalance ((exampleEnv Throws)\<lparr>chainBalance := Some 0.0005\<rparr>) = Some 0.0005"
    by simp
  have c': "chainBalance (exampleEnv Throws) = Some 0.075" by (simp add: exampleEnv_def)
  have n: "\<not> shouldBypassCheck (find (\<lambda>s. p_sessionId s = p_sessionId examplePersistent)
          (getActiveSessions (persistedSessions (exampleService exampleSession [examplePersistent]))))"
    by (simp add: recover_eval)
  have f: "findIndex (\<lambda>s. p_sessionId s = p_sessionId examplePersistent)
        (persistedSessions (exampleService exampleSession [examplePersistent])) = Some 0"
    by (simp add: exampleService_def)
  have h: "nextHandle (exampleService exampleSession [examplePersistent]) = 1"
    by (simp add: exampleService_def)
  have le: "(0.001 :: rat) \<le> 0.075" and lt: "(0.0005 :: rat) < 0.001" by simp_all
  have a1: "status (persistedSessions (fst (recoverSingleSession
            ((exampleEnv Throws)\<lparr>chainBalance := Some 0.0005\<rparr>)
            (exampleService exampleSession [examplePersistent]) examplePersistent)) ! 0) = completed
   \<and> snd (recoverSingleSession ((exampleEnv Throws)\<lparr>chainBalance := Some 0.0005\<rparr>)
            (exampleService exampleSession [examplePersistent]) examplePersistent) = []"
    using t c lt n f
      recoverSingleSession_trading [OF s, of "(exampleEnv Throws)\<lparr>chainBalance := Some 0.0005\<rparr>"
        "0.0005" "exampleService exampleSession [examplePersistent]" 0]
    by blast
  have a2: "snd (recoverSingleSession (exampleEnv Throws)
            (exampleService exampleSession [examplePersistent]) examplePersistent)
       = [SetTimeout (nextHandle (exampleService exampleSession [examplePersistent])) 2000
            ExecuteNextTrade]"
    using t c' le
      recoverSingleSession_trading [OF s, of "exampleEnv Throws"
        "0.075" "exampleService exampleSession [examplePersistent]" 0]
    by blast
  have a3: "snd (recoverSingleSession (exampleEnv Throws)
            (exampleService exampleSession [examplePersistent])
            (examplePersistent\<lparr>p_tradingBalance := 0.0005\<rparr>)) = []"
    using t'
      recoverSingleSession_trading [OF s', of "exampleEnv Throws"
        "0.075" "exampleService exampleSession [examplePersistent]" 0]
    by blast
  show ?thesis
    using s t t' c c' n f le lt a1 a2 a3 unfolding h by blast
qed

text \<open>
  C9, as stated, fails for a stored session with the flag \<^verbatim>\<open>forceActive\<close>: with a
  ledger balance of 0.0005 SOL the trading loop is started and the stored status stays
  \<^verbatim>\<open>'trading'\<close>.
\<close>

theorem recoverSingleSession_bypass_counterexample:
  "status (examplePersistent\<lparr>forceActive := True\<rparr>) = trading
   \<and> chainBalance ((exampleEnv Throws)\<lparr>chainBalance := Some 0.0005\<rparr>) = Some 0.0005
   \<and> (0.0005 :: rat) < 0.001
   \<and> snd (recoverSingleSession ((exampleEnv Throws)\<lparr>chainBalance := Some 0.0005\<rparr>)
            (exampleService exampleSession [examplePersistent\<lparr>forceActive := True\<rparr>])
            (examplePersistent\<lparr>forceActive := True\<rparr>))
       = [SetTimeout 1 2000 ExecuteNextTrade]
   \<and> map status (persistedSessions (fst (recoverSingleSession
            ((exampleEnv Throws)\<lparr>chainBalance := Some 0.0005\<rparr>)
            (exampleService exampleSession [examplePersistent\<lparr>forceActive := True\<rparr>])
            (examplePersistent\<lparr>forceActive := True\<rparr>)))) = [trading]"
  by (simp add: recover_eval)

end
